theory Spec2Isabelle
  imports Complex_Main
begin

section \<open>The notification prioritization engine\<close>

text \<open>
  A shallow embedding of the Python package \<^verbatim>\<open>notification_engine/engine\<close>:
  the in-memory store (\<^verbatim>\<open>store.py\<close>), the audit log (\<^verbatim>\<open>audit.py\<close>), the circuit
  breaker and the two scorers (\<^verbatim>\<open>scorer.py\<close>), the rules engine (\<^verbatim>\<open>rules.py\<close>) and
  the pipeline (\<^verbatim>\<open>prioritizer.py\<close>).

  Conventions of the model.
  \<^item> Mutable objects are records that every operation takes and returns.
  \<^item> Every operation that reads the clock takes the reading as an argument. One call
    of an operation sees one reading \<open>now\<close>, a rational number of seconds
    (\<^verbatim>\<open>time.time()\<close>); successive calls may be given different readings.
  \<^item> Python strings are \<open>string\<close>s; a character outside ASCII stands as its UTF-8
    bytes.
  \<^item> A dict is a map; \<^verbatim>\<open>dict.get(k)\<close> is the application of the map.
  \<^item> The \<^verbatim>\<open>print\<close> calls of the source produce console output only and are left out.
\<close>

subsection \<open>store.py: InMemoryStore\<close>

text \<open>
  \<^verbatim>\<open>_store\<close> maps a key to \<^verbatim>\<open>(value, expire_at)\<close> and \<^verbatim>\<open>_counters\<close> maps a key to
  \<^verbatim>\<open>(count, expire_at)\<close>. The source types \<^verbatim>\<open>expire_at\<close> as \<^verbatim>\<open>Optional[float]\<close>, so the
  model keeps the option. The \<^verbatim>\<open>_lists\<close> namespace is never touched by the pipeline
  and is not modelled.
\<close>

record InMemoryStore =
  store_dict :: "string \<rightharpoonup> (string \<times> rat option)"
  counters_dict :: "string \<rightharpoonup> (int \<times> rat option)"

definition InMemoryStore_init :: InMemoryStore where
  "InMemoryStore_init = \<lparr>store_dict = Map.empty, counters_dict = Map.empty\<rparr>"

text \<open>\<^verbatim>\<open>_is_expired\<close>: \<^verbatim>\<open>expire_at is not None and time.time() > expire_at\<close>.\<close>

definition store_is_expired :: "rat \<Rightarrow> rat option \<Rightarrow> bool" where
  "store_is_expired now expire_at =
     (case expire_at of None \<Rightarrow> False | Some t \<Rightarrow> now > t)"

text \<open>\<^verbatim>\<open>set_nx\<close>: set only if no live entry exists; the flag tells whether it was set.\<close>

definition set_nx ::
  "rat \<Rightarrow> string \<Rightarrow> string \<Rightarrow> int \<Rightarrow> InMemoryStore \<Rightarrow> bool \<times> InMemoryStore" where
  "set_nx now key val ttl_seconds s =
     (case store_dict s key of
        Some entry \<Rightarrow>
          if \<not> store_is_expired now (snd entry) then (False, s)
          else (True, s\<lparr>store_dict := (store_dict s)(key \<mapsto> (val, Some (now + of_int ttl_seconds)))\<rparr>)
      | None \<Rightarrow>
          (True, s\<lparr>store_dict := (store_dict s)(key \<mapsto> (val, Some (now + of_int ttl_seconds)))\<rparr>))"

definition store_get :: "rat \<Rightarrow> string \<Rightarrow> InMemoryStore \<Rightarrow> string option" where
  "store_get now key s =
     (case store_dict s key of
        Some entry \<Rightarrow> if \<not> store_is_expired now (snd entry) then Some (fst entry) else None
      | None \<Rightarrow> None)"

text \<open>
  \<^verbatim>\<open>incr\<close>: \<^verbatim>\<open>if not entry or self._is_expired(entry[1])\<close> starts a new window with
  count 1; otherwise the count grows and \<^verbatim>\<open>entry[1]\<close> is written back as it was.
\<close>

definition incr :: "rat \<Rightarrow> string \<Rightarrow> int \<Rightarrow> InMemoryStore \<Rightarrow> int \<times> InMemoryStore" where
  "incr now key ttl_seconds s =
     (case counters_dict s key of
        None \<Rightarrow>
          (1, s\<lparr>counters_dict := (counters_dict s)(key \<mapsto> (1, Some (now + of_int ttl_seconds)))\<rparr>)
      | Some entry \<Rightarrow>
          if store_is_expired now (snd entry)
          then (1, s\<lparr>counters_dict := (counters_dict s)(key \<mapsto> (1, Some (now + of_int ttl_seconds)))\<rparr>)
          else (let count = fst entry + 1
                in (count, s\<lparr>counters_dict := (counters_dict s)(key \<mapsto> (count, snd entry))\<rparr>)))"

definition get_count :: "rat \<Rightarrow> string \<Rightarrow> InMemoryStore \<Rightarrow> int" where
  "get_count now key s =
     (case counters_dict s key of
        Some entry \<Rightarrow> if \<not> store_is_expired now (snd entry) then fst entry else 0
      | None \<Rightarrow> 0)"

text \<open>
  A counter entry is live at \<open>now\<close> when it is present and not expired: the condition
  under which \<^verbatim>\<open>incr\<close> and \<^verbatim>\<open>get_count\<close> use it.
\<close>

definition live_counter :: "rat \<Rightarrow> string \<Rightarrow> InMemoryStore \<Rightarrow> (int \<times> rat option) option" where
  "live_counter now key s =
     (case counters_dict s key of
        Some entry \<Rightarrow> if store_is_expired now (snd entry) then None else Some entry
      | None \<Rightarrow> None)"

text \<open>A run of \<^verbatim>\<open>incr\<close> calls on one key, each with its clock reading and TTL.\<close>

fun incr_many :: "(rat \<times> int) list \<Rightarrow> string \<Rightarrow> InMemoryStore \<Rightarrow> InMemoryStore" where
  "incr_many [] key s = s"
| "incr_many (c # cs) key s = incr_many cs key (snd (incr (fst c) key (snd c) s))"

subsection \<open>List slices\<close>

text \<open>
  Python's slice \<^verbatim>\<open>xs[i:]\<close>: a negative start counts from the end, and a start
  out of range is clipped.
\<close>

definition slice_from :: "'a list \<Rightarrow> int \<Rightarrow> 'a list" where
  "slice_from xs i =
     (if i < 0 then drop (nat (max 0 (int (length xs) + i))) xs else drop (nat i) xs)"

subsection \<open>models.py: Python values, NotificationEvent, Decision\<close>

text \<open>
  The values a metadata entry or a rule condition can hold (\<^verbatim>\<open>Dict[str, Any]\<close>, read
  from JSON): \<^verbatim>\<open>None\<close>, booleans, integers, floats (by their exact value), strings,
  lists and dicts with string keys (an association list, keys pairwise distinct).
\<close>

datatype pyval =
    PNone
  | PBool bool
  | PInt int
  | PFloat rat
  | PStr string
  | PList "pyval list"
  | PDict "(string \<times> pyval) list"

datatype py_error = TypeError

text \<open>Truth value testing, as \<^verbatim>\<open>if x:\<close> does it.\<close>

fun py_truthy :: "pyval \<Rightarrow> bool" where
  "py_truthy PNone = False"
| "py_truthy (PBool b) = b"
| "py_truthy (PInt i) = (i \<noteq> 0)"
| "py_truthy (PFloat r) = (r \<noteq> 0)"
| "py_truthy (PStr s) = (s \<noteq> [])"
| "py_truthy (PList xs) = (xs \<noteq> [])"
| "py_truthy (PDict kvs) = (kvs \<noteq> [])"

text \<open>\<^verbatim>\<open>if s:\<close> on an \<^verbatim>\<open>Optional[str]\<close>: neither \<^verbatim>\<open>None\<close> nor the empty string.\<close>

definition truthy_str :: "string option \<Rightarrow> bool" where
  "truthy_str s = (case s of None \<Rightarrow> False | Some t \<Rightarrow> t \<noteq> [])"

text \<open>\<^verbatim>\<open>s or ''\<close> on an \<^verbatim>\<open>Optional[str]\<close>.\<close>

definition or_empty :: "string option \<Rightarrow> string" where
  "or_empty s = (case s of None \<Rightarrow> [] | Some t \<Rightarrow> t)"

text \<open>
  Python's \<^verbatim>\<open>==\<close> on these values: numbers compare by value across \<^verbatim>\<open>bool\<close>,
  \<^verbatim>\<open>int\<close> and \<^verbatim>\<open>float\<close> (\<^verbatim>\<open>True == 1\<close>); lists compare element by element; dicts
  compare as finite maps.
\<close>

fun py_num :: "pyval \<Rightarrow> rat option" where
  "py_num (PBool b) = Some (if b then 1 else 0)"
| "py_num (PInt i) = Some (of_int i)"
| "py_num (PFloat r) = Some r"
| "py_num _ = None"

fun py_eq :: "pyval \<Rightarrow> pyval \<Rightarrow> bool"
  and py_eq_list :: "pyval list \<Rightarrow> pyval list \<Rightarrow> bool"
  and py_eq_items :: "(string \<times> pyval) list \<Rightarrow> (string \<times> pyval) list \<Rightarrow> bool" where
  "py_eq PNone y = (y = PNone)"
| "py_eq (PBool b) y = (py_num y = Some (if b then 1 else 0))"
| "py_eq (PInt i) y = (py_num y = Some (of_int i))"
| "py_eq (PFloat r) y = (py_num y = Some r)"
| "py_eq (PStr s) y = (y = PStr s)"
| "py_eq (PList xs) y = (case y of PList ys \<Rightarrow> py_eq_list xs ys | _ \<Rightarrow> False)"
| "py_eq (PDict kvs) y =
     (case y of PDict kvs' \<Rightarrow> length kvs = length kvs' \<and> py_eq_items kvs kvs' | _ \<Rightarrow> False)"
| "py_eq_list [] ys = (ys = [])"
| "py_eq_list (x # xs) ys =
     (case ys of [] \<Rightarrow> False | y # ys' \<Rightarrow> py_eq x y \<and> py_eq_list xs ys')"
| "py_eq_items [] kvs' = True"
| "py_eq_items (kv # kvs) kvs' =
     ((case map_of kvs' (fst kv) of None \<Rightarrow> False | Some v' \<Rightarrow> py_eq (snd kv) v')
      \<and> py_eq_items kvs kvs')"

text \<open>\<^verbatim>\<open>t in s\<close> on strings: \<open>t\<close> occurs in \<open>s\<close> as a contiguous block.\<close>

fun py_substring :: "string \<Rightarrow> string \<Rightarrow> bool" where
  "py_substring t [] = (t = [])"
| "py_substring t (c # cs) = (take (length t) (c # cs) = t \<or> py_substring t cs)"

text \<open>
  \<^verbatim>\<open>item in container\<close>. A list searches with \<^verbatim>\<open>==\<close>; a string needs a string on
  the left; a dict looks the item up among its keys and needs it hashable; anything
  else is not iterable. The failures raise \<^verbatim>\<open>TypeError\<close>.
\<close>

fun py_in :: "pyval \<Rightarrow> pyval \<Rightarrow> py_error + bool" where
  "py_in item (PList xs) = Inr (list_ex (\<lambda>x. py_eq x item) xs)"
| "py_in item (PStr s) = (case item of PStr t \<Rightarrow> Inr (py_substring t s) | _ \<Rightarrow> Inl TypeError)"
| "py_in item (PDict kvs) =
     (case item of
        PList _ \<Rightarrow> Inl TypeError
      | PDict _ \<Rightarrow> Inl TypeError
      | PStr k \<Rightarrow> Inr (k \<in> set (map fst kvs))
      | _ \<Rightarrow> Inr False)"
| "py_in item _ = Inl TypeError"

record NotificationEvent =
  user_id :: string
  event_type :: string
  channel :: string
  title :: "string option"
  message :: "string option"
  source :: "string option"
  priority_hint :: "string option"
  timestamp :: "string option"
  expires_at :: "string option"
  dedupe_key :: "string option"
  metadata :: "(string \<times> pyval) list"
  event_id :: string

record Decision =
  d_event_id :: string
  d_user_id :: string
  action :: string
  score :: rat
  reason :: string
  rule_matched :: "string option"
  ai_used :: bool
  fallback_mode :: bool
  decided_at :: string
  deferred_until :: "string option"

text \<open>
  What the standard library computes, taken as parameters:
  \<^item> \<open>fromisoformat s\<close>: the POSIX time of \<^verbatim>\<open>datetime.fromisoformat(s)\<close> (a naive
    datetime read in local time, as \<^verbatim>\<open>datetime.now(None)\<close> is), \<open>None\<close> when it raises;
  \<^item> \<open>format_2f x\<close>: \<^verbatim>\<open>f"{x:.2f}"\<close>;
  \<^item> \<open>sha256_hexdigest s\<close>: \<^verbatim>\<open>hashlib.sha256(s.encode()).hexdigest()\<close>.
\<close>

record PyLib =
  fromisoformat :: "string \<Rightarrow> rat option"
  format_2f :: "rat \<Rightarrow> string"
  sha256_hexdigest :: "string \<Rightarrow> string"

text \<open>
  One reading of the clock: \<^verbatim>\<open>time.time()\<close> (and \<^verbatim>\<open>datetime.now(tz)\<close> as POSIX
  time), \<^verbatim>\<open>date.today().isoformat()\<close> and \<^verbatim>\<open>datetime.now().isoformat()\<close>.
\<close>

record Clock =
  time_now :: rat
  today_iso :: string
  now_iso :: string

text \<open>\<^verbatim>\<open>s.replace("Z", "+00:00")\<close>.\<close>

definition replace_Z :: "string \<Rightarrow> string" where
  "replace_Z s = concat (map (\<lambda>c. if c = CHR ''Z'' then ''+00:00'' else [c]) s)"

text \<open>
  \<^verbatim>\<open>NotificationEvent.is_expired\<close>: false without \<^verbatim>\<open>expires_at\<close> or when parsing
  raises, else \<^verbatim>\<open>exp < datetime.now(exp.tzinfo)\<close>.
\<close>

definition is_expired :: "PyLib \<Rightarrow> rat \<Rightarrow> NotificationEvent \<Rightarrow> bool" where
  "is_expired lib now e =
     (case expires_at e of
        None \<Rightarrow> False
      | Some s \<Rightarrow>
          if s = [] then False
          else (case fromisoformat lib (replace_Z s) of
                  Some exp_time \<Rightarrow> exp_time < now
                | None \<Rightarrow> False))"

subsection \<open>String building\<close>

text \<open>The characters of the source's string literals that an Isabelle literal cannot hold.\<close>

definition apostrophe :: string where
  "apostrophe = [CHR 0x27]"

text \<open>The em dash (U+2014), as its three UTF-8 bytes.\<close>

definition em_dash :: string where
  "em_dash = [CHR 0xE2, CHR 0x80, CHR 0x94]"

text \<open>\<^verbatim>\<open>str(n)\<close> of an integer, as an f-string interpolates it.\<close>

fun str_nat :: "nat \<Rightarrow> string" where
  "str_nat n =
     (if n < 10 then [''0123456789'' ! n]
      else str_nat (n div 10) @ [''0123456789'' ! (n mod 10)])"

definition str_int :: "int \<Rightarrow> string" where
  "str_int i = (if i < 0 then CHR ''-'' # str_nat (nat (- i)) else str_nat (nat i))"

text \<open>\<^verbatim>\<open>sep.join(xs)\<close>.\<close>

fun join_str :: "string \<Rightarrow> string list \<Rightarrow> string" where
  "join_str sep [] = []"
| "join_str sep [x] = x"
| "join_str sep (x # y # ys) = x @ sep @ join_str sep (y # ys)"

subsection \<open>store.py: DedupChecker\<close>

text \<open>
  Character classes on ASCII, as Python's \<^verbatim>\<open>str\<close> methods and the \<^verbatim>\<open>re\<close> module
  have them there: \<^verbatim>\<open>str.isspace\<close> holds of the codes 9 to 13, 28 to 31 and 32;
  \<^verbatim>\<open>\s\<close> is \<^verbatim>\<open>str.isspace\<close>, and \<^verbatim>\<open>\w\<close> is \<^verbatim>\<open>str.isalnum\<close> or the underscore.
  A byte from 128 on is part of a character outside ASCII, about which these
  definitions say nothing true: the properties of the fingerprint are stated for
  ASCII text.
\<close>

definition ascii_text :: "string \<Rightarrow> bool" where
  "ascii_text s = list_all (\<lambda>c. (of_char c :: nat) < 128) s"

definition is_space :: "char \<Rightarrow> bool" where
  "is_space c = (let n = (of_char c :: nat) in (9 \<le> n \<and> n \<le> 13) \<or> (28 \<le> n \<and> n \<le> 32))"

definition is_alnum :: "char \<Rightarrow> bool" where
  "is_alnum c =
     (let n = (of_char c :: nat)
      in (48 \<le> n \<and> n \<le> 57) \<or> (65 \<le> n \<and> n \<le> 90) \<or> (97 \<le> n \<and> n \<le> 122))"

definition re_word :: "char \<Rightarrow> bool" where
  "re_word c = (is_alnum c \<or> c = CHR ''_'')"

text \<open>\<^verbatim>\<open>str.lower\<close>.\<close>

definition lower_char :: "char \<Rightarrow> char" where
  "lower_char c =
     (let n = (of_char c :: nat) in if 65 \<le> n \<and> n \<le> 90 then char_of (n + 32) else c)"

definition lower :: "string \<Rightarrow> string" where
  "lower s = map lower_char s"

text \<open>\<^verbatim>\<open>str.strip\<close> without argument: whitespace goes from both ends.\<close>

definition strip :: "string \<Rightarrow> string" where
  "strip s = rev (dropWhile is_space (rev (dropWhile is_space s)))"

text \<open>
  \<^verbatim>\<open>re.sub(r'[^\w\s]', '', s)\<close>: every character of the negated class
  \<^verbatim>\<open>[^\w\s]\<close> is replaced by the empty string.
\<close>

definition re_sub_nonword_nonspace :: "string \<Rightarrow> string" where
  "re_sub_nonword_nonspace s = filter (\<lambda>c. \<not> (\<not> (re_word c \<or> is_space c))) s"

text \<open>\<^verbatim>\<open>DedupChecker._fingerprint\<close>.\<close>

definition fingerprint_text :: "NotificationEvent \<Rightarrow> string" where
  "fingerprint_text e =
     event_type e @ '':'' @ or_empty (title e) @ '':'' @ or_empty (message e)"

definition fingerprint :: "PyLib \<Rightarrow> NotificationEvent \<Rightarrow> string" where
  "fingerprint lib e =
     (let text_in = fingerprint_text e;
          normalized = re_sub_nonword_nonspace (strip (lower text_in))
      in take 16 (sha256_hexdigest lib normalized))"

definition EXACT_TTL :: int where
  "EXACT_TTL = 86400"

definition NEAR_TTL :: int where
  "NEAR_TTL = 3600"

definition dedup_key :: "NotificationEvent \<Rightarrow> string \<Rightarrow> string" where
  "dedup_key e k = ''dedup:'' @ user_id e @ '':'' @ k"

definition exact_duplicate_reason :: "string \<Rightarrow> string" where
  "exact_duplicate_reason k =
     ''Exact duplicate '' @ em_dash @ '' dedupe_key '' @ apostrophe @ k @ apostrophe @
     '' already seen in last 24h''"

definition near_duplicate_reason :: string where
  "near_duplicate_reason =
     ''Near-duplicate detected '' @ em_dash @ '' very similar content sent in last 1h''"

text \<open>
  \<^verbatim>\<open>DedupChecker.check\<close>. Layer 1 runs only for a truthy \<^verbatim>\<open>dedupe_key\<close> and
  returns at once on a hit; layer 2 registers the content fingerprint.
\<close>

definition dedup_layer2 ::
  "PyLib \<Rightarrow> rat \<Rightarrow> NotificationEvent \<Rightarrow> InMemoryStore \<Rightarrow> string option \<times> InMemoryStore" where
  "dedup_layer2 lib now e s =
     (let fp = fingerprint lib e;
          key = ''fingerprint:'' @ user_id e @ '':'' @ fp;
          (set_ok, s') = set_nx now key (event_id e) NEAR_TTL s
      in if \<not> set_ok then (Some near_duplicate_reason, s') else (None, s'))"

definition check ::
  "PyLib \<Rightarrow> rat \<Rightarrow> NotificationEvent \<Rightarrow> InMemoryStore \<Rightarrow> string option \<times> InMemoryStore" where
  "check lib now e s =
     (if truthy_str (dedupe_key e) then
        (let k = or_empty (dedupe_key e);
             (set_ok, s') = set_nx now (dedup_key e k) (event_id e) EXACT_TTL s
         in if \<not> set_ok then (Some (exact_duplicate_reason k), s')
            else dedup_layer2 lib now e s')
      else dedup_layer2 lib now e s)"

subsection \<open>store.py: FrequencyChecker\<close>

text \<open>\<^verbatim>\<open>CAPS.get(event_type, CAPS["default"])\<close>, as \<^verbatim>\<open>(max, window)\<close>.\<close>

definition CAPS :: "string \<Rightarrow> int \<times> int" where
  "CAPS ty =
     (if ty = ''promotion'' then (2, 3600)
      else if ty = ''update'' then (5, 3600)
      else if ty = ''reminder'' then (3, 3600)
      else if ty = ''message'' then (20, 3600)
      else if ty = ''system_event'' then (10, 3600)
      else if ty = ''alert'' then (10, 3600)
      else (8, 3600))"

text \<open>\<^verbatim>\<open>DAILY_CHANNEL_CAPS.get(channel, 20)\<close>.\<close>

definition DAILY_CHANNEL_CAPS :: "string \<Rightarrow> int" where
  "DAILY_CHANNEL_CAPS ch =
     (if ch = ''push'' then 20
      else if ch = ''sms'' then 5
      else if ch = ''email'' then 10
      else if ch = ''in_app'' then 50
      else 20)"

definition freq_key :: "NotificationEvent \<Rightarrow> string" where
  "freq_key e = ''freq:'' @ user_id e @ '':'' @ event_type e"

definition frequency_reason :: "int \<Rightarrow> int \<Rightarrow> string \<Rightarrow> string" where
  "frequency_reason count cap_max ty =
     ''Frequency cap exceeded ('' @ str_int count @ ''/'' @ str_int cap_max @ '' '' @
     apostrophe @ ty @ apostrophe @ '' events in last hour)''"

definition check_frequency ::
  "rat \<Rightarrow> NotificationEvent \<Rightarrow> InMemoryStore \<Rightarrow> string option \<times> InMemoryStore" where
  "check_frequency now e s =
     (let cap = CAPS (event_type e);
          (count, s') = incr now (freq_key e) (snd cap) s
      in if count > fst cap then (Some (frequency_reason count (fst cap) (event_type e)), s')
         else (None, s'))"

definition check_daily_cap ::
  "Clock \<Rightarrow> NotificationEvent \<Rightarrow> InMemoryStore \<Rightarrow> string option \<times> InMemoryStore" where
  "check_daily_cap clk e s =
     (let cap = DAILY_CHANNEL_CAPS (channel e);
          key = ''daily_cap:'' @ user_id e @ '':'' @ channel e @ '':'' @ today_iso clk;
          (count, s') = incr (time_now clk) key 86400 s
      in if count > cap
         then (Some (''Daily '' @ channel e @ '' cap reached ('' @ str_int count @ ''/'' @
                     str_int cap @ '')''), s')
         else (None, s'))"

subsection \<open>rules.py: RulesEngine\<close>

text \<open>
  A rule is a dict with the keys \<^verbatim>\<open>name\<close>, \<^verbatim>\<open>priority\<close> (read with
  \<^verbatim>\<open>r.get("priority", 0)\<close>, so it may be missing), \<^verbatim>\<open>conditions\<close>, \<^verbatim>\<open>action\<close> and
  \<^verbatim>\<open>reason\<close>; a condition is a dict with the keys \<^verbatim>\<open>field\<close>, \<^verbatim>\<open>op\<close> and \<^verbatim>\<open>value\<close>.
\<close>

record Condition =
  cond_field :: string
  cond_op :: string
  cond_value :: pyval

record Rule =
  name :: string
  priority :: "int option"
  conditions :: "Condition list"
  rule_action :: string
  rule_reason :: string

definition opt_str :: "string option \<Rightarrow> pyval" where
  "opt_str s = (case s of None \<Rightarrow> PNone | Some t \<Rightarrow> PStr t)"

text \<open>
  \<^verbatim>\<open>_get_field\<close>: \<^verbatim>\<open>getattr(event, field, event.metadata.get(field))\<close>. The
  attributes modelled are the twelve dataclass fields; a field name that is a method
  or a special attribute of the object (\<^verbatim>\<open>is_expired\<close>, \<^verbatim>\<open>__dict__\<close>, ...) is outside
  the model.
\<close>

definition get_field :: "string \<Rightarrow> NotificationEvent \<Rightarrow> pyval" where
  "get_field f e =
     (if f = ''user_id'' then PStr (user_id e)
      else if f = ''event_type'' then PStr (event_type e)
      else if f = ''channel'' then PStr (channel e)
      else if f = ''title'' then opt_str (title e)
      else if f = ''message'' then opt_str (message e)
      else if f = ''source'' then opt_str (source e)
      else if f = ''priority_hint'' then opt_str (priority_hint e)
      else if f = ''timestamp'' then opt_str (timestamp e)
      else if f = ''expires_at'' then opt_str (expires_at e)
      else if f = ''dedupe_key'' then opt_str (dedupe_key e)
      else if f = ''metadata'' then PDict (metadata e)
      else if f = ''id'' then PStr (event_id e)
      else (case map_of (metadata e) f of None \<Rightarrow> PNone | Some v \<Rightarrow> v))"

text \<open>
  \<^verbatim>\<open>_matches\<close>: the conditions in order; the first one that fails returns
  \<^verbatim>\<open>False\<close>, an unknown \<^verbatim>\<open>op\<close> is skipped, and \<^verbatim>\<open>in\<close> may raise.
\<close>

fun matches :: "Condition list \<Rightarrow> NotificationEvent \<Rightarrow> py_error + bool" where
  "matches [] e = Inr True"
| "matches (c # cs) e =
     (let actual = get_field (cond_field c) e; expected = cond_value c
      in if cond_op c = ''eq'' \<and> \<not> py_eq actual expected then Inr False
         else if cond_op c = ''in'' then
           (case py_in actual expected of
              Inl err \<Rightarrow> Inl err
            | Inr found \<Rightarrow> if \<not> found then Inr False else matches cs e)
         else if cond_op c = ''neq'' \<and> py_eq actual expected then Inr False
         else matches cs e)"

text \<open>
  \<^verbatim>\<open>RulesEngine.evaluate\<close>: the first matching rule, as
  \<^verbatim>\<open>(action, reason, name)\<close>.
\<close>

fun rules_evaluate ::
  "Rule list \<Rightarrow> NotificationEvent \<Rightarrow> py_error + (string \<times> string \<times> string) option" where
  "rules_evaluate [] e = Inr None"
| "rules_evaluate (r # rs) e =
     (case matches (conditions r) e of
        Inl err \<Rightarrow> Inl err
      | Inr True \<Rightarrow> Inr (Some (rule_action r, rule_reason r, name r))
      | Inr False \<Rightarrow> rules_evaluate rs e)"

definition DEFAULT_RULES :: "Rule list" where
  "DEFAULT_RULES =
     [\<lparr>name = ''always_send_security_alerts'', priority = Some 100,
       conditions = [\<lparr>cond_field = ''event_type'', cond_op = ''eq'',
                      cond_value = PStr ''security_alert''\<rparr>],
       rule_action = ''NOW'', rule_reason = ''Security alerts always sent immediately''\<rparr>,
      \<lparr>name = ''always_send_critical'', priority = Some 99,
       conditions = [\<lparr>cond_field = ''priority_hint'', cond_op = ''eq'',
                      cond_value = PStr ''critical''\<rparr>],
       rule_action = ''NOW'', rule_reason = ''Critical priority always sent immediately''\<rparr>,
      \<lparr>name = ''suppress_promos_low_priority'', priority = Some 50,
       conditions = [\<lparr>cond_field = ''event_type'', cond_op = ''eq'',
                      cond_value = PStr ''promotion''\<rparr>,
                     \<lparr>cond_field = ''priority_hint'', cond_op = ''in'',
                      cond_value = PList [PStr ''low'', PNone]\<rparr>],
       rule_action = ''NEVER'',
       rule_reason = ''Low-priority promotions suppressed to reduce noise''\<rparr>,
      \<lparr>name = ''defer_updates_to_digest'', priority = Some 40,
       conditions = [\<lparr>cond_field = ''event_type'', cond_op = ''eq'',
                      cond_value = PStr ''update''\<rparr>],
       rule_action = ''LATER'', rule_reason = ''Updates batched into daily digest''\<rparr>]"

text \<open>
  \<^verbatim>\<open>rules.sort(key=lambda r: r.get("priority", 0), reverse=True)\<close>: a stable
  sort by descending priority.
\<close>

definition rule_priority :: "Rule \<Rightarrow> int" where
  "rule_priority r = (case priority r of None \<Rightarrow> 0 | Some p \<Rightarrow> p)"

definition sort_rules :: "Rule list \<Rightarrow> Rule list" where
  "sort_rules rs = sort_key (\<lambda>r. - rule_priority r) rs"

text \<open>\<^verbatim>\<open>RulesEngine()\<close> without a rules file, and \<^verbatim>\<open>add_rule\<close>.\<close>

definition RulesEngine_init :: "Rule list" where
  "RulesEngine_init = sort_rules DEFAULT_RULES"

definition add_rule :: "Rule \<Rightarrow> Rule list \<Rightarrow> Rule list" where
  "add_rule r rs = sort_rules (rs @ [r])"

subsection \<open>scorer.py: CircuitBreaker\<close>

record CircuitBreaker =
  failures :: int
  state :: string
  last_failure_time :: "rat option"
  failure_threshold :: int
  reset_timeout :: rat

definition CircuitBreaker_init :: "int \<Rightarrow> rat \<Rightarrow> CircuitBreaker" where
  "CircuitBreaker_init threshold timeout =
     \<lparr>failures = 0, state = ''CLOSED'', last_failure_time = None,
      failure_threshold = threshold, reset_timeout = timeout\<rparr>"

text \<open>
  \<^verbatim>\<open>can_attempt\<close>. In the state \<^verbatim>\<open>OPEN\<close> it computes
  \<^verbatim>\<open>time.time() - self.last_failure_time\<close>, which raises \<^verbatim>\<open>TypeError\<close> when no
  failure time is recorded.
\<close>

definition can_attempt :: "rat \<Rightarrow> CircuitBreaker \<Rightarrow> (py_error + bool) \<times> CircuitBreaker" where
  "can_attempt now b =
     (if state b = ''OPEN'' then
        (case last_failure_time b of
           None \<Rightarrow> (Inl TypeError, b)
         | Some t \<Rightarrow>
             if now - t > reset_timeout b then (Inr True, b\<lparr>state := ''HALF-OPEN''\<rparr>)
             else (Inr False, b))
      else (Inr True, b))"

definition record_success :: "CircuitBreaker \<Rightarrow> CircuitBreaker" where
  "record_success b = b\<lparr>failures := 0, state := ''CLOSED''\<rparr>"

definition record_failure :: "rat \<Rightarrow> CircuitBreaker \<Rightarrow> CircuitBreaker" where
  "record_failure now b =
     (let b1 = b\<lparr>failures := failures b + 1\<rparr>;
          b2 = b1\<lparr>last_failure_time := Some now\<rparr>
      in if failures b2 \<ge> failure_threshold b2 then b2\<lparr>state := ''OPEN''\<rparr> else b2)"

text \<open>
  The breakers a program can hold: a fresh one, and whatever the three methods make
  of one, at any clock readings.
\<close>

inductive reachable :: "int \<Rightarrow> rat \<Rightarrow> CircuitBreaker \<Rightarrow> bool" for threshold timeout where
  reach_init: "reachable threshold timeout (CircuitBreaker_init threshold timeout)"
| reach_can_attempt:
    "reachable threshold timeout b \<Longrightarrow> reachable threshold timeout (snd (can_attempt now b))"
| reach_success:
    "reachable threshold timeout b \<Longrightarrow> reachable threshold timeout (record_success b)"
| reach_failure:
    "reachable threshold timeout b \<Longrightarrow> reachable threshold timeout (record_failure now b)"

text \<open>Consecutive \<^verbatim>\<open>record_failure\<close> calls, at the clock readings of the list.\<close>

fun record_failures :: "rat list \<Rightarrow> CircuitBreaker \<Rightarrow> CircuitBreaker" where
  "record_failures [] b = b"
| "record_failures (t # ts) b = record_failures ts (record_failure t b)"

subsection \<open>scorer.py: the scorers\<close>

text \<open>
  Scores are Python floats. The model computes with the exact decimal values: every
  constant of the source has at most two decimal places and every channel weight at
  most one, so the exact value of a score has at most three, the float computation
  stays within a rounding error far below \<open>0.0005\<close> of it, and \<^verbatim>\<open>round(x, 3)\<close>
  returns the float of exactly that decimal. Comparisons of a rounded score with
  \<open>0.75\<close> and \<open>0.35\<close> therefore agree with the comparisons made here.
\<close>

record ScoreResult =
  sr_score :: rat
  sr_action :: string
  sr_reason :: string
  sr_ai_used :: bool
  sr_fallback_mode :: bool

text \<open>\<^verbatim>\<open>round(x)\<close>: to the nearest integer, a tie to the even one.\<close>

definition round_half_even :: "rat \<Rightarrow> int" where
  "round_half_even x =
     (let f = \<lfloor>x\<rfloor>; d = x - of_int f
      in if d < 1 / 2 then f
         else if d > 1 / 2 then f + 1
         else if even f then f else f + 1)"

text \<open>\<^verbatim>\<open>round(x, 3)\<close>.\<close>

definition py_round3 :: "rat \<Rightarrow> rat" where
  "py_round3 x = of_int (round_half_even (x * 1000)) / 1000"

text \<open>\<^verbatim>\<open>PRIORITY_SCORES.get(event.priority_hint, 0.40)\<close>.\<close>

definition PRIORITY_SCORES :: "string option \<Rightarrow> rat" where
  "PRIORITY_SCORES p =
     (if p = Some ''critical'' then 95 / 100
      else if p = Some ''high'' then 78 / 100
      else if p = Some ''medium'' then 52 / 100
      else if p = Some ''low'' then 22 / 100
      else 40 / 100)"

text \<open>\<^verbatim>\<open>CHANNEL_WEIGHTS.get(event.channel, 0.7)\<close>.\<close>

definition CHANNEL_WEIGHTS :: "string \<Rightarrow> rat" where
  "CHANNEL_WEIGHTS ch =
     (if ch = ''push'' then 1
      else if ch = ''sms'' then 9 / 10
      else if ch = ''email'' then 7 / 10
      else if ch = ''in_app'' then 5 / 10
      else 7 / 10)"

text \<open>
  The expiry step of \<^verbatim>\<open>DeterministicScorer.score\<close>: with a truthy
  \<^verbatim>\<open>expires_at\<close> that parses, the minutes left until it are measured against the
  clock; an exception while parsing is swallowed.
\<close>

definition expiry_boost :: "PyLib \<Rightarrow> rat \<Rightarrow> NotificationEvent \<Rightarrow> rat \<Rightarrow> rat" where
  "expiry_boost lib now e base =
     (case expires_at e of
        None \<Rightarrow> base
      | Some s \<Rightarrow>
          if s = [] then base
          else (case fromisoformat lib (replace_Z s) of
                  None \<Rightarrow> base
                | Some exp_time \<Rightarrow>
                    (let mins = (exp_time - now) / 60
                     in if mins < 10 then base + 30 / 100
                        else if mins < 60 then base + 10 / 100
                        else base)))"

text \<open>\<^verbatim>\<open>DeterministicScorer.score\<close>.\<close>

definition deterministic_score ::
  "PyLib \<Rightarrow> rat \<Rightarrow> NotificationEvent \<Rightarrow> int \<Rightarrow> pyval \<Rightarrow> ScoreResult" where
  "deterministic_score lib now e recent_count is_quiet_hours =
     (let base0 = PRIORITY_SCORES (priority_hint e);
          recency_penalty = min (of_int recent_count * (8 / 100)) (25 / 100);
          base1 = base0 - recency_penalty;
          base2 = expiry_boost lib now e base1;
          base3 = (if py_truthy is_quiet_hours then base2 - 20 / 100 else base2);
          base4 = base3 * CHANNEL_WEIGHTS (channel e);
          sc = py_round3 (max 0 (min 1 base4));
          (act, rsn) =
            (if sc \<ge> 75 / 100 then
               (''NOW'', ''Score '' @ format_2f lib sc @ '' '' @ em_dash @
                         '' high priority, sending immediately'')
             else if sc \<ge> 35 / 100 then
               (''LATER'', ''Score '' @ format_2f lib sc @ '' '' @ em_dash @
                           '' medium priority, deferred'')
             else
               (''NEVER'', ''Score '' @ format_2f lib sc @ '' '' @ em_dash @
                           '' low value, suppressed''))
      in \<lparr>sr_score = sc, sr_action = act, sr_reason = rsn, sr_ai_used = False,
          sr_fallback_mode = True\<rparr>)"

text \<open>\<^verbatim>\<open>type_scores.get(event.event_type, 0.50)\<close>.\<close>

definition type_scores :: "string \<Rightarrow> rat" where
  "type_scores ty =
     (if ty = ''message'' then 70 / 100
      else if ty = ''security_alert'' then 95 / 100
      else if ty = ''alert'' then 85 / 100
      else if ty = ''reminder'' then 55 / 100
      else if ty = ''update'' then 40 / 100
      else if ty = ''promotion'' then 20 / 100
      else if ty = ''system_event'' then 60 / 100
      else 50 / 100)"

text \<open>
  \<^verbatim>\<open>AIScorer._call_ai\<close>, the simulated scorer. The result is a sum because the
  caller wraps it in \<^verbatim>\<open>try\<close>; the simulation itself never raises.
\<close>

definition call_ai ::
  "PyLib \<Rightarrow> NotificationEvent \<Rightarrow> int \<Rightarrow> pyval \<Rightarrow> string + ScoreResult" where
  "call_ai lib e recent_count is_quiet_hours =
     (let score0 = type_scores (event_type e);
          reasons0 = [''event_type='' @ apostrophe @ event_type e @ apostrophe];
          (score1, reasons1) =
            (if priority_hint e = Some ''critical''
               then (max score0 (93 / 100), reasons0 @ [''critical priority''])
             else if priority_hint e = Some ''high'' then (max score0 (78 / 100), reasons0)
             else if priority_hint e = Some ''low'' then (min score0 (35 / 100), reasons0)
             else (score0, reasons0));
          (score2, reasons2) =
            (if recent_count > 3
               then (score1 - (12 / 100) * of_int (recent_count - 3),
                     reasons1 @ [str_int recent_count @ '' recent similar events''])
             else (score1, reasons1));
          (score3, reasons3) =
            (if py_truthy is_quiet_hours \<and>
                \<not> (priority_hint e = Some ''critical'' \<or> priority_hint e = Some ''high'')
               then (score2 - 18 / 100, reasons2 @ [''quiet hours''])
             else (score2, reasons2));
          sc = py_round3 (max 0 (min 1 score3));
          act = (if sc \<ge> 75 / 100 then ''NOW'' else if sc \<ge> 35 / 100 then ''LATER'' else ''NEVER'')
      in Inr \<lparr>sr_score = sc, sr_action = act,
               sr_reason = ''[AI] Score '' @ format_2f lib sc @ '': '' @ join_str '', '' reasons3,
               sr_ai_used = True, sr_fallback_mode = False\<rparr>)"

record AIScorer =
  circuit_breaker :: CircuitBreaker
  AI_AVAILABLE :: bool

definition AIScorer_init :: AIScorer where
  "AIScorer_init = \<lparr>circuit_breaker = CircuitBreaker_init 5 30, AI_AVAILABLE = True\<rparr>"

text \<open>\<^verbatim>\<open>AIScorer._fallback\<close>.\<close>

definition fallback_score ::
  "PyLib \<Rightarrow> rat \<Rightarrow> NotificationEvent \<Rightarrow> int \<Rightarrow> pyval \<Rightarrow> string \<Rightarrow> ScoreResult" where
  "fallback_score lib now e recent_count is_quiet_hours cause =
     (let result = deterministic_score lib now e recent_count is_quiet_hours
      in result\<lparr>sr_reason := ''[FALLBACK] '' @ cause @ '' '' @ em_dash @ '' '' @ sr_reason result\<rparr>)"

text \<open>
  \<^verbatim>\<open>AIScorer.score\<close>. \<^verbatim>\<open>can_attempt()\<close> is evaluated first, outside the
  \<^verbatim>\<open>try\<close>, and may move the breaker to \<^verbatim>\<open>HALF-OPEN\<close> even when the scorer is
  switched off.
\<close>

definition ai_score ::
  "PyLib \<Rightarrow> rat \<Rightarrow> NotificationEvent \<Rightarrow> int \<Rightarrow> pyval \<Rightarrow> AIScorer \<Rightarrow>
   (py_error + ScoreResult) \<times> AIScorer" where
  "ai_score lib now e recent_count is_quiet_hours sc =
     (let (attempt, cb) = can_attempt now (circuit_breaker sc)
      in case attempt of
           Inl err \<Rightarrow> (Inl err, sc\<lparr>circuit_breaker := cb\<rparr>)
         | Inr ok \<Rightarrow>
             if \<not> ok \<or> \<not> AI_AVAILABLE sc then
               (Inr (fallback_score lib now e recent_count is_quiet_hours
                       ''AI circuit breaker OPEN''),
                sc\<lparr>circuit_breaker := cb\<rparr>)
             else
               (case call_ai lib e recent_count is_quiet_hours of
                  Inr result \<Rightarrow> (Inr result, sc\<lparr>circuit_breaker := record_success cb\<rparr>)
                | Inl msg \<Rightarrow>
                    (Inr (fallback_score lib now e recent_count is_quiet_hours msg),
                     sc\<lparr>circuit_breaker := record_failure now cb\<rparr>)))"

subsection \<open>audit.py: AuditLog\<close>

text \<open>\<^verbatim>\<open>get_user_history\<close>: the two filters, then the slice \<^verbatim>\<open>results[-limit:]\<close>.\<close>

definition get_user_history ::
  "Decision list \<Rightarrow> string \<Rightarrow> string option \<Rightarrow> int \<Rightarrow> Decision list" where
  "get_user_history entries uid act limit =
     (let results = filter (\<lambda>d. d_user_id d = uid) entries;
          results' = (if truthy_str act then filter (\<lambda>d. action d = or_empty act) results
                      else results)
      in slice_from results' (- limit))"

text \<open>
  The decisions the two filters of \<^verbatim>\<open>get_user_history\<close> let through, in the order
  of the log: those of the user, and of the action when a non-empty one is given.
\<close>

definition matching_decisions :: "Decision list \<Rightarrow> string \<Rightarrow> string option \<Rightarrow> Decision list" where
  "matching_decisions entries uid act =
     filter (\<lambda>d. d_user_id d = uid \<and> (case act of None \<Rightarrow> True | Some a \<Rightarrow> a = [] \<or> action d = a))
       entries"

subsection \<open>prioritizer.py: PrioritizationEngine\<close>

text \<open>
  The engine with the module-level singletons it works on: the store and the audit
  log.
\<close>

record Engine =
  store :: InMemoryStore
  rules :: "Rule list"
  scorer :: AIScorer
  audit_log :: "Decision list"

definition Engine_init :: Engine where
  "Engine_init =
     \<lparr>store = InMemoryStore_init, rules = RulesEngine_init, scorer = AIScorer_init,
      audit_log = []\<rparr>"

definition is_high_priority :: "NotificationEvent \<Rightarrow> bool" where
  "is_high_priority e = (priority_hint e = Some ''critical'' \<or> priority_hint e = Some ''high'')"

definition safety_net_prefix :: string where
  "safety_net_prefix = ''[SAFETY NET] High-priority event cannot be suppressed. Original: ''"

text \<open>
  \<^verbatim>\<open>_decide\<close>: the safety net, the construction of the Decision and its record
  in the audit log.
\<close>

definition decide ::
  "Clock \<Rightarrow> NotificationEvent \<Rightarrow> string \<Rightarrow> rat \<Rightarrow> string \<Rightarrow> string option \<Rightarrow> bool \<Rightarrow> bool \<Rightarrow>
   Engine \<Rightarrow> Decision \<times> Engine" where
  "decide clk e act sc rsn rule ai fb st =
     (let (act', rsn', sc') =
            (if act = ''NEVER'' \<and> is_high_priority e
             then (''NOW'', safety_net_prefix @ rsn, 9 / 10)
             else (act, rsn, sc));
          decision =
            \<lparr>d_event_id = event_id e, d_user_id = user_id e, action = act', score = sc',
             reason = rsn', rule_matched = rule, ai_used = ai, fallback_mode = fb,
             decided_at = now_iso clk, deferred_until = None\<rparr>
      in (decision, st\<lparr>audit_log := audit_log st @ [decision]\<rparr>))"

definition returns :: "Decision \<times> Engine \<Rightarrow> (py_error + Decision) \<times> Engine" where
  "returns r = (Inr (fst r), snd r)"

text \<open>\<^verbatim>\<open>event.metadata.get("quiet_hours", False)\<close>.\<close>

definition quiet_hours :: "NotificationEvent \<Rightarrow> pyval" where
  "quiet_hours e = (case map_of (metadata e) ''quiet_hours'' of None \<Rightarrow> PBool False | Some v \<Rightarrow> v)"

text \<open>
  \<^verbatim>\<open>evaluate\<close>, steps 4 to 6: the two fatigue counters, the scorer and the merge
  with a \<^verbatim>\<open>LATER\<close> rule. \<open>rule_result\<close> is what step 3 left.
\<close>

definition evaluate_after_rules ::
  "PyLib \<Rightarrow> Clock \<Rightarrow> NotificationEvent \<Rightarrow> (string \<times> string \<times> string) option \<Rightarrow> Engine \<Rightarrow>
   (py_error + Decision) \<times> Engine" where
  "evaluate_after_rules lib clk e rule_result st =
     (let now = time_now clk;
          (freq_reason, s1) = check_frequency now e (store st);
          (daily_reason, s2) = check_daily_cap clk e s1;
          st2 = st\<lparr>store := s2\<rparr>
      in if truthy_str freq_reason \<and> \<not> is_high_priority e then
           (if event_type e = ''promotion'' \<or> event_type e = ''system_event''
            then returns (decide clk e ''NEVER'' (1 / 10) (or_empty freq_reason)
                            (Some ''frequency_cap'') False False st2)
            else returns (decide clk e ''LATER'' (3 / 10)
                            (or_empty freq_reason @ '' '' @ em_dash @ '' batched to digest'')
                            (Some ''frequency_cap'') False False st2))
         else if truthy_str daily_reason \<and> \<not> is_high_priority e then
           returns (decide clk e ''LATER'' (3 / 10)
                      (or_empty daily_reason @ '' '' @ em_dash @ '' batched to digest'')
                      (Some ''daily_cap'') False False st2)
         else
           (let recent_count = get_count now (freq_key e) (store st2);
                is_quiet = quiet_hours e;
                (scored, scorer') = ai_score lib now e recent_count is_quiet (scorer st2);
                st3 = st2\<lparr>scorer := scorer'\<rparr>
            in case scored of
                 Inl err \<Rightarrow> (Inl err, st3)
               | Inr score_result \<Rightarrow>
                   (let (final_action, final_reason) =
                          (case rule_result of
                             Some (ra, rr, rn) \<Rightarrow>
                               if ra = ''LATER'' \<and> sr_action score_result = ''NOW'' \<and>
                                  \<not> is_high_priority e
                               then (''LATER'', rr @ '' (overrides AI NOW suggestion)'')
                               else (sr_action score_result, sr_reason score_result)
                           | None \<Rightarrow> (sr_action score_result, sr_reason score_result))
                    in returns (decide clk e final_action (sr_score score_result) final_reason
                                  (case rule_result of Some (ra, rr, rn) \<Rightarrow> Some rn | None \<Rightarrow> None)
                                  (sr_ai_used score_result) (sr_fallback_mode score_result)
                                  st3))))"

text \<open>
  \<^verbatim>\<open>evaluate\<close>: expiry, duplicates, hard rules, then the steps above. An exception
  of the rules engine or of the scorer leaves the method; what was written to the
  store before stays written.
\<close>

definition evaluate ::
  "PyLib \<Rightarrow> Clock \<Rightarrow> NotificationEvent \<Rightarrow> Engine \<Rightarrow> (py_error + Decision) \<times> Engine" where
  "evaluate lib clk e st =
     (if is_expired lib (time_now clk) e then
        returns (decide clk e ''NEVER'' 0 ''Event expired before processing'' None False False st)
      else
        (let (dedup_reason, s1) = check lib (time_now clk) e (store st);
             st1 = st\<lparr>store := s1\<rparr>
         in if truthy_str dedup_reason then
              returns (decide clk e ''NEVER'' 0 (or_empty dedup_reason) (Some ''dedup_check'')
                         False False st1)
            else
              (case rules_evaluate (rules st1) e of
                 Inl err \<Rightarrow> (Inl err, st1)
               | Inr rule_result \<Rightarrow>
                   (case rule_result of
                      Some (ra, rr, rn) \<Rightarrow>
                        if ra = ''NOW'' then returns (decide clk e ''NOW'' 1 rr (Some rn) False False st1)
                        else if ra = ''NEVER'' then
                          returns (decide clk e ''NEVER'' 0 rr (Some rn) False False st1)
                        else evaluate_after_rules lib clk e rule_result st1
                    | None \<Rightarrow> evaluate_after_rules lib clk e rule_result st1))))"

subsection \<open>Sample data\<close>

text \<open>A decision with the given event id, user and action, for the worked examples.\<close>

definition sample_decision :: "string \<Rightarrow> string \<Rightarrow> string \<Rightarrow> Decision" where
  "sample_decision i u a =
     \<lparr>d_event_id = i, d_user_id = u, action = a, score = 0, reason = ''r'',
      rule_matched = None, ai_used = False, fallback_mode = False, decided_at = ''t'',
      deferred_until = None\<rparr>"

text \<open>
  A library instance for the worked examples. The two timestamps it parses are
  midnight UTC of 1 January 2020 and of 1 January 2030. The formatter writes a
  non-negative number with two decimals (exact on the numbers of the examples, which
  have at most two). The digest is a stand-in that writes each byte as two hex digits:
  no decision of the examples depends on what the digest of a text is, only on
  different texts having different fingerprints.
\<close>

definition sample_fromisoformat :: "string \<Rightarrow> rat option" where
  "sample_fromisoformat s =
     (if s = ''2020-01-01T00:00:00+00:00'' then Some 1577836800
      else if s = ''2030-01-01T00:00:00+00:00'' then Some 1893456000
      else None)"

definition sample_format_2f :: "rat \<Rightarrow> string" where
  "sample_format_2f x =
     (let n = nat (round_half_even (x * 100))
      in str_nat (n div 100) @ ''.'' @ str_nat (n mod 100 div 10) @ str_nat (n mod 10))"

definition hex_byte :: "char \<Rightarrow> string" where
  "hex_byte c =
     (let n = (of_char c :: nat)
      in [''0123456789abcdef'' ! (n div 16), ''0123456789abcdef'' ! (n mod 16)])"

definition sample_digest :: "string \<Rightarrow> string" where
  "sample_digest s = concat (map hex_byte s)"

definition sample_lib :: PyLib where
  "sample_lib =
     \<lparr>fromisoformat = sample_fromisoformat, format_2f = sample_format_2f,
      sha256_hexdigest = sample_digest\<rparr>"

text \<open>A clock reading on 14 November 2023, \<open>t\<close> seconds after 22:13:20 UTC.\<close>

definition sample_clock :: "rat \<Rightarrow> Clock" where
  "sample_clock t =
     \<lparr>time_now = 1700000000 + t, today_iso = ''2023-11-14'', now_iso = ''2023-11-14T22:13:20''\<rparr>"

text \<open>An event of user \<open>u1\<close> with the given type, channel, priority hint and title.\<close>

definition sample_event ::
  "string \<Rightarrow> string \<Rightarrow> string option \<Rightarrow> string option \<Rightarrow> NotificationEvent" where
  "sample_event ty ch p t =
     \<lparr>user_id = ''u1'', event_type = ty, channel = ch, title = t, message = None,
      source = None, priority_hint = p, timestamp = None, expires_at = None,
      dedupe_key = None, metadata = [], event_id = ''e1''\<rparr>"

text \<open>
  What step 3 of \<^verbatim>\<open>evaluate\<close> lets through: no rule matched, or the matching rule's
  action is neither \<^verbatim>\<open>NOW\<close> nor \<^verbatim>\<open>NEVER\<close>.
\<close>

definition soft_rule :: "(string \<times> string \<times> string) option \<Rightarrow> bool" where
  "soft_rule rule_result =
     (case rule_result of None \<Rightarrow> True | Some (ra, rr, rn) \<Rightarrow> ra \<noteq> ''NOW'' \<and> ra \<noteq> ''NEVER'')"

text \<open>
  The condition of step 6: a \<^verbatim>\<open>LATER\<close> rule matched, the scorer said \<^verbatim>\<open>NOW\<close>
  and the event is not of high priority.
\<close>

definition merged_action :: "NotificationEvent \<Rightarrow> (string \<times> string \<times> string) option \<Rightarrow> ScoreResult \<Rightarrow> bool" where
  "merged_action e rule_result sr =
     (case rule_result of
        None \<Rightarrow> False
      | Some (ra, rr, rn) \<Rightarrow> ra = ''LATER'' \<and> sr_action sr = ''NOW'' \<and> \<not> is_high_priority e)"

text \<open>Two events and an engine for the worked examples.\<close>

definition quiet_promotion :: NotificationEvent where
  "quiet_promotion =
     (sample_event ''promotion'' ''in_app'' (Some ''high'') None)
       \<lparr>metadata := [(''quiet_hours'', PBool True)]\<rparr>"

definition engine_ai_off :: Engine where
  "engine_ai_off = Engine_init\<lparr>scorer := AIScorer_init\<lparr>AI_AVAILABLE := False\<rparr>\<rparr>"

text \<open>A reminder that expired on 1 January 2020, with the given priority hint.\<close>

definition expired_reminder :: "string \<Rightarrow> NotificationEvent" where
  "expired_reminder p =
     (sample_event ''reminder'' ''push'' (Some p) None)\<lparr>expires_at := Some ''2020-01-01T00:00:00Z''\<rparr>"

text \<open>A message with the idempotency key \<open>k1\<close> and the given priority hint.\<close>

definition keyed_message :: "string \<Rightarrow> NotificationEvent" where
  "keyed_message p =
     (sample_event ''message'' ''push'' (Some p) (Some ''Hi''))\<lparr>dedupe_key := Some ''k1''\<rparr>"

section \<open>Properties\<close>

subsection \<open>The counter store\<close>

lemma incr_fresh:
  "live_counter now key s = None \<Longrightarrow>
   incr now key ttl s =
     (1, s\<lparr>counters_dict := (counters_dict s)(key \<mapsto> (1, Some (now + of_int ttl)))\<rparr>)"
  by (auto simp: live_counter_def incr_def split: option.splits if_splits)

lemma incr_live:
  "live_counter now key s = Some (old, expire_at) \<Longrightarrow>
   incr now key ttl s =
     (old + 1, s\<lparr>counters_dict := (counters_dict s)(key \<mapsto> (old + 1, expire_at))\<rparr>)"
  by (auto simp: live_counter_def incr_def Let_def split: option.splits if_splits)

lemma incr_many_keeps_expiry:
  "counters_dict s key = Some (old, Some expire_at) \<Longrightarrow>
   \<forall>c \<in> set cs. fst c \<le> expire_at \<Longrightarrow>
   counters_dict (incr_many cs key s) key = Some (old + int (length cs), Some expire_at)"
proof (induction cs arbitrary: s old)
  case Nil
  then show ?case by simp
next
  case (Cons c cs)
  have live: "\<not> store_is_expired (fst c) (Some expire_at)"
    using Cons.prems(2) by (simp add: store_is_expired_def)
  have step: "counters_dict (snd (incr (fst c) key (snd c) s)) key = Some (old + 1, Some expire_at)"
    using Cons.prems(1) live by (simp add: incr_def Let_def)
  have "counters_dict (incr_many cs key (snd (incr (fst c) key (snd c) s))) key
        = Some (old + 1 + int (length cs), Some expire_at)"
    using Cons.IH [OF step] Cons.prems(2) by simp
  then show ?case by simp
qed

text \<open>
  Claim C8. For every key, \<^verbatim>\<open>incr(key, ttl)\<close> called when no live counter entry
  exists stores \<open>(1, now + ttl)\<close> and returns 1; called when a live entry
  \<open>(old, expire_at)\<close> exists, it returns \<open>old + 1\<close> and leaves the stored
  \<open>expire_at\<close> as it was. So the TTL is set by the first increment of a window and
  does not slide: after any run of further increments made no later than that expiry
  time, with whatever TTLs, the entry still carries the expiry time of the first.
\<close>

theorem incr_first_write_ttl:
  "(live_counter now key s = None \<longrightarrow>
      incr now key ttl s =
        (1, s\<lparr>counters_dict := (counters_dict s)(key \<mapsto> (1, Some (now + of_int ttl)))\<rparr>)) \<and>
   (\<forall>old expire_at. live_counter now key s = Some (old, expire_at) \<longrightarrow>
      incr now key ttl s =
        (old + 1, s\<lparr>counters_dict := (counters_dict s)(key \<mapsto> (old + 1, expire_at))\<rparr>)) \<and>
   (live_counter now key s = None \<and> (\<forall>c \<in> set cs. fst c \<le> now + of_int ttl) \<longrightarrow>
      counters_dict (incr_many cs key (snd (incr now key ttl s))) key =
        Some (1 + int (length cs), Some (now + of_int ttl)))"
proof (intro conjI impI allI)
  assume "live_counter now key s = None"
  then show "incr now key ttl s =
        (1, s\<lparr>counters_dict := (counters_dict s)(key \<mapsto> (1, Some (now + of_int ttl)))\<rparr>)"
    by (rule incr_fresh)
next
  fix old expire_at
  assume "live_counter now key s = Some (old, expire_at)"
  then show "incr now key ttl s =
        (old + 1, s\<lparr>counters_dict := (counters_dict s)(key \<mapsto> (old + 1, expire_at))\<rparr>)"
    by (rule incr_live)
next
  assume a: "live_counter now key s = None \<and> (\<forall>c \<in> set cs. fst c \<le> now + of_int ttl)"
  then have "counters_dict (snd (incr now key ttl s)) key = Some (1, Some (now + of_int ttl))"
    by (simp add: incr_fresh)
  from incr_many_keeps_expiry [OF this] a
  show "counters_dict (incr_many cs key (snd (incr now key ttl s))) key =
        Some (1 + int (length cs), Some (now + of_int ttl))"
    by simp
qed

theorem incr_first_write_ttl_witness:
  "incr 100 ''k'' 60 InMemoryStore_init =
     (1, InMemoryStore_init\<lparr>counters_dict := (counters_dict InMemoryStore_init)(''k'' \<mapsto> (1, Some 160))\<rparr>) \<and>
   incr 130 ''k'' 60 (snd (incr 100 ''k'' 60 InMemoryStore_init)) =
     (2, (snd (incr 100 ''k'' 60 InMemoryStore_init))
          \<lparr>counters_dict := (counters_dict (snd (incr 100 ''k'' 60 InMemoryStore_init)))(''k'' \<mapsto> (2, Some 160))\<rparr>) \<and>
   counters_dict (incr_many [(130, 60), (160, 10)] ''k'' (snd (incr 100 ''k'' 60 InMemoryStore_init))) ''k'' =
     Some (3, Some 160)"
proof -
  let ?s1 = "snd (incr 100 ''k'' 60 InMemoryStore_init)"
  have fresh: "live_counter 100 ''k'' InMemoryStore_init = None"
    by (simp add: live_counter_def InMemoryStore_init_def)
  have live: "live_counter 130 ''k'' ?s1 = Some (1, Some 160)"
    by (simp add: live_counter_def InMemoryStore_init_def incr_def store_is_expired_def)
  have times: "\<forall>c \<in> set [(130::rat, 60::int), (160, 10)]. fst c \<le> 100 + of_int 60"
    by simp
  note first = incr_first_write_ttl [of 100 "''k''" InMemoryStore_init 60 "[(130, 60), (160, 10)]"]
  note second = incr_first_write_ttl [of 130 "''k''" ?s1 60 "[]"]
  have a: "incr 100 ''k'' 60 InMemoryStore_init =
     (1, InMemoryStore_init\<lparr>counters_dict := (counters_dict InMemoryStore_init)(''k'' \<mapsto> (1, Some 160))\<rparr>)"
    using first fresh by simp
  have b: "incr 130 ''k'' 60 ?s1 =
     (2, ?s1\<lparr>counters_dict := (counters_dict ?s1)(''k'' \<mapsto> (2, Some 160))\<rparr>)"
    using second live by simp
  have c: "counters_dict (incr_many [(130, 60), (160, 10)] ''k'' ?s1) ''k'' = Some (3, Some 160)"
    using conjunct2 [OF conjunct2 [OF first]] fresh times by simp
  show ?thesis using a b c by blast
qed

subsection \<open>The circuit breaker\<close>

lemma reachable_invariant:
  "reachable threshold timeout b \<Longrightarrow>
   failure_threshold b = threshold \<and> reset_timeout b = timeout \<and> 0 \<le> failures b \<and>
   (state b = ''CLOSED'' \<or> state b = ''OPEN'' \<or> state b = ''HALF-OPEN'') \<and>
   (state b \<noteq> ''CLOSED'' \<longrightarrow> threshold \<le> failures b \<and> last_failure_time b \<noteq> None)"
proof (induction rule: reachable.induct)
  case reach_init
  show ?case by (simp add: CircuitBreaker_init_def)
next
  case (reach_can_attempt b now)
  then show ?case
    by (auto simp: can_attempt_def split: option.splits)
next
  case (reach_success b)
  then show ?case by (simp add: record_success_def)
next
  case (reach_failure b now)
  then show ?case
    by (auto simp: record_failure_def Let_def)
qed

lemma record_failures_fields:
  "failure_threshold (record_failures ts b) = failure_threshold b \<and>
   reset_timeout (record_failures ts b) = reset_timeout b \<and>
   failures (record_failures ts b) = failures b + int (length ts)"
  by (induction ts arbitrary: b) (auto simp: record_failure_def Let_def)

lemma record_failures_snoc:
  "record_failures (ts @ [t]) b = record_failure t (record_failures ts b)"
  by (induction ts arbitrary: b) auto

lemma record_failures_opens:
  assumes "ts \<noteq> []" and "failure_threshold b \<le> failures b + int (length ts)"
  shows "state (record_failures ts b) = ''OPEN'' \<and>
         last_failure_time (record_failures ts b) = Some (last ts)"
proof -
  from assms(1) obtain us t where ts: "ts = us @ [t]"
    by (metis rev_exhaust)
  let ?m = "record_failures us b"
  have "failure_threshold ?m \<le> failures ?m + 1"
    using assms(2) record_failures_fields [of us b] by (simp add: ts)
  then show ?thesis
    by (simp add: ts record_failures_snoc record_failure_def Let_def)
qed

lemma reachable_record_failures:
  "reachable threshold timeout b \<Longrightarrow> reachable threshold timeout (record_failures ts b)"
  by (induction ts arbitrary: b) (auto intro: reach_failure)

lemma can_attempt_open:
  assumes "state b = ''OPEN''" and "last_failure_time b = Some t"
  shows "can_attempt now b =
           (if now - t > reset_timeout b then (Inr True, b\<lparr>state := ''HALF-OPEN''\<rparr>)
            else (Inr False, b))"
  using assms by (simp add: can_attempt_def)

text \<open>
  Claim C9. From a \<^verbatim>\<open>CLOSED\<close> breaker, after \<^verbatim>\<open>failure_threshold\<close> consecutive
  \<^verbatim>\<open>record_failure\<close> calls the breaker is \<^verbatim>\<open>OPEN\<close>, and \<^verbatim>\<open>can_attempt()\<close>
  returns false, changing nothing, as long as no more than \<^verbatim>\<open>reset_timeout\<close> seconds
  have passed since the last failure; once more have passed, \<^verbatim>\<open>can_attempt()\<close> moves
  the breaker to \<^verbatim>\<open>HALF-OPEN\<close> and returns true. \<^verbatim>\<open>record_success\<close> always sets the
  failures to 0 and the state to \<^verbatim>\<open>CLOSED\<close>. In every reachable \<^verbatim>\<open>HALF-OPEN\<close> state
  one \<^verbatim>\<open>record_failure\<close> leads back to \<^verbatim>\<open>OPEN\<close>. The threshold is a positive number
  of calls, and the breaker is one a program can reach from a fresh breaker.
\<close>

theorem circuit_breaker_lifecycle:
  "(reachable threshold timeout b \<and> state b = ''CLOSED'' \<and> 0 < threshold \<and>
    length ts = nat threshold \<longrightarrow>
      state (record_failures ts b) = ''OPEN'' \<and>
      last_failure_time (record_failures ts b) = Some (last ts) \<and>
      (\<forall>now. now - last ts \<le> timeout \<longrightarrow>
         can_attempt now (record_failures ts b) = (Inr False, record_failures ts b)) \<and>
      (\<forall>now. now - last ts > timeout \<longrightarrow>
         can_attempt now (record_failures ts b) =
           (Inr True, (record_failures ts b)\<lparr>state := ''HALF-OPEN''\<rparr>))) \<and>
   (failures (record_success b) = 0 \<and> state (record_success b) = ''CLOSED'') \<and>
   (reachable threshold timeout b \<and> state b = ''HALF-OPEN'' \<longrightarrow>
      state (record_failure now' b) = ''OPEN'')"
proof (intro conjI impI)
  assume a: "reachable threshold timeout b \<and> state b = ''CLOSED'' \<and> 0 < threshold \<and>
    length ts = nat threshold"
  let ?b = "record_failures ts b"
  from a have inv: "failure_threshold b = threshold" "reset_timeout b = timeout" "0 \<le> failures b"
    using reachable_invariant [of threshold timeout b] by simp_all
  from a have ne: "ts \<noteq> []" by auto
  from a inv have enough: "failure_threshold b \<le> failures b + int (length ts)" by simp
  note opened = record_failures_opens [OF ne enough]
  show "state ?b = ''OPEN''" using opened by simp
  show "last_failure_time ?b = Some (last ts)" using opened by simp
  have rt: "reset_timeout ?b = timeout"
    using record_failures_fields [of ts b] inv by simp
  show "\<forall>now. now - last ts \<le> timeout \<longrightarrow> can_attempt now ?b = (Inr False, ?b)"
    using can_attempt_open [of ?b "last ts"] opened rt by simp
  show "\<forall>now. now - last ts > timeout \<longrightarrow>
         can_attempt now ?b = (Inr True, ?b\<lparr>state := ''HALF-OPEN''\<rparr>)"
    using can_attempt_open [of ?b "last ts"] opened rt by simp
next
  show "failures (record_success b) = 0" by (simp add: record_success_def)
  show "state (record_success b) = ''CLOSED''" by (simp add: record_success_def)
next
  assume a: "reachable threshold timeout b \<and> state b = ''HALF-OPEN''"
  then have "failure_threshold b \<le> failures b"
    using reachable_invariant [of threshold timeout b] by simp
  then show "state (record_failure now' b) = ''OPEN''"
    by (simp add: record_failure_def Let_def)
qed

theorem circuit_breaker_lifecycle_witness:
  "state (record_failures [1, 2, 3, 4, 5] (CircuitBreaker_init 5 30)) = ''OPEN'' \<and>
   can_attempt 35 (record_failures [1, 2, 3, 4, 5] (CircuitBreaker_init 5 30)) =
     (Inr False, record_failures [1, 2, 3, 4, 5] (CircuitBreaker_init 5 30)) \<and>
   can_attempt 36 (record_failures [1, 2, 3, 4, 5] (CircuitBreaker_init 5 30)) =
     (Inr True, (record_failures [1, 2, 3, 4, 5] (CircuitBreaker_init 5 30))\<lparr>state := ''HALF-OPEN''\<rparr>) \<and>
   state (snd (can_attempt 36 (record_failures [1, 2, 3, 4, 5] (CircuitBreaker_init 5 30)))) = ''HALF-OPEN'' \<and>
   state (record_failure 37
     (snd (can_attempt 36 (record_failures [1, 2, 3, 4, 5] (CircuitBreaker_init 5 30))))) = ''OPEN''"
proof -
  let ?b0 = "CircuitBreaker_init 5 30"
  let ?b5 = "record_failures [1, 2, 3, 4, 5] ?b0"
  let ?bh = "snd (can_attempt 36 ?b5)"
  have r0: "reachable 5 30 ?b0" by (rule reach_init)
  have r5: "reachable 5 30 ?b5" using r0 by (rule reachable_record_failures)
  have rh: "reachable 5 30 ?bh" using r5 by (rule reach_can_attempt)
  have c0: "state ?b0 = ''CLOSED''" by (simp add: CircuitBreaker_init_def)
  note first = circuit_breaker_lifecycle [of 5 30 ?b0 "[1, 2, 3, 4, 5]" 0]
  have p1: "state ?b5 = ''OPEN''"
    and p2: "can_attempt 35 ?b5 = (Inr False, ?b5)"
    and p3: "can_attempt 36 ?b5 = (Inr True, ?b5\<lparr>state := ''HALF-OPEN''\<rparr>)"
    using first r0 c0 by simp_all
  have p4: "state ?bh = ''HALF-OPEN''" unfolding p3 by simp
  have p5: "state (record_failure 37 ?bh) = ''OPEN''"
    using circuit_breaker_lifecycle [of 5 30 ?bh "[]" 37] rh p4 by blast
  show ?thesis using p1 p2 p3 p4 p5 by blast
qed

subsection \<open>The audit log\<close>

lemma get_user_history_slice:
  "get_user_history entries uid act limit = slice_from (matching_decisions entries uid act) (- limit)"
  by (cases act) (auto simp: get_user_history_def matching_decisions_def truthy_str_def or_empty_def Let_def
      intro!: arg_cong2 [where f = slice_from] filter_cong)

text \<open>
  Claim C10. For every user and every optional action filter, \<^verbatim>\<open>get_user_history\<close>
  with \<^verbatim>\<open>limit = 0\<close> returns every matching decision in insertion order, not the
  empty list: the slice \<^verbatim>\<open>results[-0:]\<close> is the whole list. A negative limit does not
  bound the result to the last matches either: \<^verbatim>\<open>results[-limit:]\<close> then drops the
  first \<open>- limit\<close> matches and returns the rest.
\<close>

theorem get_user_history_limit_zero:
  "get_user_history entries uid act 0 = matching_decisions entries uid act \<and>
   (limit < 0 \<longrightarrow>
      get_user_history entries uid act limit =
        drop (nat (- limit)) (matching_decisions entries uid act))"
  by (simp add: get_user_history_slice slice_from_def)

theorem get_user_history_limit_zero_witness:
  "get_user_history [sample_decision ''1'' ''u1'' ''NOW'', sample_decision ''2'' ''u2'' ''NOW'', sample_decision ''3'' ''u1'' ''NEVER'',
                     sample_decision ''4'' ''u1'' ''NOW''] ''u1'' None 0 =
     [sample_decision ''1'' ''u1'' ''NOW'', sample_decision ''3'' ''u1'' ''NEVER'', sample_decision ''4'' ''u1'' ''NOW''] \<and>
   get_user_history [sample_decision ''1'' ''u1'' ''NOW'', sample_decision ''2'' ''u2'' ''NOW'', sample_decision ''3'' ''u1'' ''NEVER'',
                     sample_decision ''4'' ''u1'' ''NOW''] ''u1'' (Some ''NOW'') 0 =
     [sample_decision ''1'' ''u1'' ''NOW'', sample_decision ''4'' ''u1'' ''NOW''] \<and>
   get_user_history [sample_decision ''1'' ''u1'' ''NOW'', sample_decision ''2'' ''u2'' ''NOW'', sample_decision ''3'' ''u1'' ''NEVER'',
                     sample_decision ''4'' ''u1'' ''NOW''] ''u1'' None (- 1) =
     [sample_decision ''3'' ''u1'' ''NEVER'', sample_decision ''4'' ''u1'' ''NOW'']"
  using get_user_history_limit_zero [of "[sample_decision ''1'' ''u1'' ''NOW'', sample_decision ''2'' ''u2'' ''NOW'', sample_decision ''3'' ''u1'' ''NEVER'',
                     sample_decision ''4'' ''u1'' ''NOW'']" "''u1''" None "- 1"]
    get_user_history_limit_zero [of "[sample_decision ''1'' ''u1'' ''NOW'', sample_decision ''2'' ''u2'' ''NOW'', sample_decision ''3'' ''u1'' ''NEVER'',
                     sample_decision ''4'' ''u1'' ''NOW'']" "''u1''" "Some ''NOW''" "- 1"]
  by (simp add: matching_decisions_def sample_decision_def)

subsection \<open>The pipeline: every return goes through the safety net\<close>

text \<open>The defining equations, grouped by module, for evaluating concrete inputs.\<close>

lemmas store_defs =
  InMemoryStore_init_def store_is_expired_def set_nx_def store_get_def incr_def get_count_def

lemmas text_defs =
  apostrophe_def em_dash_def str_int_def truthy_str_def or_empty_def replace_Z_def
  is_space_def is_alnum_def re_word_def lower_char_def lower_def strip_def
  re_sub_nonword_nonspace_def fingerprint_text_def fingerprint_def

lemmas checker_defs =
  EXACT_TTL_def NEAR_TTL_def dedup_key_def exact_duplicate_reason_def near_duplicate_reason_def
  dedup_layer2_def check_def CAPS_def DAILY_CHANNEL_CAPS_def freq_key_def frequency_reason_def
  check_frequency_def check_daily_cap_def

lemmas rules_defs =
  opt_str_def get_field_def DEFAULT_RULES_def rule_priority_def sort_rules_def
  RulesEngine_init_def add_rule_def

lemmas scorer_defs =
  CircuitBreaker_init_def can_attempt_def record_success_def record_failure_def
  round_half_even_def py_round3_def PRIORITY_SCORES_def CHANNEL_WEIGHTS_def expiry_boost_def
  deterministic_score_def type_scores_def call_ai_def AIScorer_init_def fallback_score_def
  ai_score_def

lemmas engine_defs =
  Engine_init_def is_high_priority_def safety_net_prefix_def decide_def returns_def
  quiet_hours_def evaluate_after_rules_def evaluate_def is_expired_def

lemmas sample_defs =
  sample_fromisoformat_def sample_format_2f_def hex_byte_def sample_digest_def sample_lib_def
  sample_clock_def sample_event_def sample_decision_def
  quiet_promotion_def engine_ai_off_def

lemmas model_defs =
  store_defs text_defs checker_defs rules_defs scorer_defs engine_defs sample_defs

lemma evaluate_after_rules_through_decide:
  "(\<exists>err st'. evaluate_after_rules lib clk e rr st = (Inl err, st')) \<or>
   (\<exists>act sc rsn rule ai fb st0.
      evaluate_after_rules lib clk e rr st = returns (decide clk e act sc rsn rule ai fb st0))"
  unfolding evaluate_after_rules_def Let_def
  by (simp split: prod.splits sum.splits option.splits) blast

lemma evaluate_through_decide:
  "(\<exists>err st'. evaluate lib clk e st = (Inl err, st')) \<or>
   (\<exists>act sc rsn rule ai fb st0.
      evaluate lib clk e st = returns (decide clk e act sc rsn rule ai fb st0))"
proof -
  note after = evaluate_after_rules_through_decide
  show ?thesis
    unfolding evaluate_def Let_def
    using after
    by (simp split: prod.splits sum.splits option.splits) blast
qed

lemma decide_safety_net:
  "is_high_priority e \<Longrightarrow>
   decide clk e ''NEVER'' sc rsn rule ai fb st =
     (\<lparr>d_event_id = event_id e, d_user_id = user_id e, action = ''NOW'', score = 9 / 10,
       reason = safety_net_prefix @ rsn, rule_matched = rule, ai_used = ai, fallback_mode = fb,
       decided_at = now_iso clk, deferred_until = None\<rparr>,
      st\<lparr>audit_log := audit_log st @
        [\<lparr>d_event_id = event_id e, d_user_id = user_id e, action = ''NOW'', score = 9 / 10,
          reason = safety_net_prefix @ rsn, rule_matched = rule, ai_used = ai,
          fallback_mode = fb, decided_at = now_iso clk, deferred_until = None\<rparr>]\<rparr>)"
  by (simp add: decide_def Let_def)

lemma decide_plain:
  "\<not> (act = ''NEVER'' \<and> is_high_priority e) \<Longrightarrow>
   decide clk e act sc rsn rule ai fb st =
     (\<lparr>d_event_id = event_id e, d_user_id = user_id e, action = act, score = sc,
       reason = rsn, rule_matched = rule, ai_used = ai, fallback_mode = fb,
       decided_at = now_iso clk, deferred_until = None\<rparr>,
      st\<lparr>audit_log := audit_log st @
        [\<lparr>d_event_id = event_id e, d_user_id = user_id e, action = act, score = sc,
          reason = rsn, rule_matched = rule, ai_used = ai,
          fallback_mode = fb, decided_at = now_iso clk, deferred_until = None\<rparr>]\<rparr>)"
  by (auto simp add: decide_def Let_def)

lemma decide_never_only_low:
  "action (fst (decide clk e act sc rsn rule ai fb st)) = ''NEVER'' \<Longrightarrow> \<not> is_high_priority e"
  by (auto simp: decide_def Let_def split: if_splits)

lemma ai_score_raises:
  "ai_score lib now e rc q sc = (Inl err, sc') \<Longrightarrow>
   state (circuit_breaker sc) = ''OPEN'' \<and> last_failure_time (circuit_breaker sc) = None"
  by (auto simp: ai_score_def can_attempt_def call_ai_def Let_def
      split: if_splits option.splits prod.splits sum.splits)

lemma evaluate_after_rules_raises:
  "evaluate_after_rules lib clk e rr st = (Inl err, st') \<Longrightarrow>
   state (circuit_breaker (scorer st)) = ''OPEN'' \<and>
   last_failure_time (circuit_breaker (scorer st)) = None"
  unfolding evaluate_after_rules_def Let_def
  by (auto simp: returns_def split: prod.splits sum.splits option.splits if_splits
      dest: ai_score_raises)

lemma check_keeps_counters:
  "counters_dict (snd (check lib now e s)) = counters_dict s"
  by (simp add: check_def dedup_layer2_def set_nx_def Let_def
      split: option.splits prod.splits)

lemma evaluate_raises:
  "evaluate lib clk e st = (Inl err, st') \<Longrightarrow>
   rules_evaluate (rules st) e = Inl err \<or>
   (state (circuit_breaker (scorer st)) = ''OPEN'' \<and>
    last_failure_time (circuit_breaker (scorer st)) = None)"
  unfolding evaluate_def Let_def
  by (auto simp: returns_def split: prod.splits sum.splits option.splits if_splits
      dest!: evaluate_after_rules_raises)


lemma reachable_can_attempt_returns:
  "reachable threshold timeout b \<Longrightarrow> \<not> (state b = ''OPEN'' \<and> last_failure_time b = None)"
  using reachable_invariant [of threshold timeout b] by auto

text \<open>
  Claim C1. For every event whose \<^verbatim>\<open>priority_hint\<close> is \<^verbatim>\<open>critical\<close> or \<^verbatim>\<open>high\<close>
  (expired or not), a Decision that \<^verbatim>\<open>evaluate\<close> returns never has the action
  \<^verbatim>\<open>NEVER\<close>; \<^verbatim>\<open>evaluate\<close> does return a Decision whenever the rules engine does not
  raise on the event and the circuit breaker is one a program can reach; and whenever
  the tentative action handed to \<^verbatim>\<open>_decide\<close> is \<^verbatim>\<open>NEVER\<close>, the safety net turns it
  into \<^verbatim>\<open>NOW\<close> with score 0.9 and the reason
  \<^verbatim>\<open>[SAFETY NET] High-priority event cannot be suppressed. Original: \<close> followed by the
  prior reason.
\<close>

theorem high_priority_never_suppressed:
  "is_high_priority e \<longrightarrow>
     (\<forall>d st'. evaluate lib clk e st = (Inr d, st') \<longrightarrow> action d \<noteq> ''NEVER'') \<and>
     ((\<exists>rr. rules_evaluate (rules st) e = Inr rr) \<and>
      reachable threshold timeout (circuit_breaker (scorer st)) \<longrightarrow>
        (\<exists>d st'. evaluate lib clk e st = (Inr d, st') \<and> action d \<noteq> ''NEVER'')) \<and>
     decide clk e ''NEVER'' sc rsn rule ai fb st =
       (\<lparr>d_event_id = event_id e, d_user_id = user_id e, action = ''NOW'', score = 9 / 10,
         reason = safety_net_prefix @ rsn, rule_matched = rule, ai_used = ai,
         fallback_mode = fb, decided_at = now_iso clk, deferred_until = None\<rparr>,
        st\<lparr>audit_log := audit_log st @
          [\<lparr>d_event_id = event_id e, d_user_id = user_id e, action = ''NOW'', score = 9 / 10,
            reason = safety_net_prefix @ rsn, rule_matched = rule, ai_used = ai,
            fallback_mode = fb, decided_at = now_iso clk, deferred_until = None\<rparr>]\<rparr>)"
proof (intro impI conjI allI)
  assume high: "is_high_priority e"
  have safe: "action d \<noteq> ''NEVER''" if "evaluate lib clk e st = (Inr d, st')" for d st'
  proof -
    from evaluate_through_decide [of lib clk e st] that
    obtain act sc' rsn' rule' ai' fb' st0
      where "evaluate lib clk e st = returns (decide clk e act sc' rsn' rule' ai' fb' st0)"
      by auto
    with that have "d = fst (decide clk e act sc' rsn' rule' ai' fb' st0)"
      by (simp add: returns_def)
    with high decide_never_only_low show ?thesis by blast
  qed
  show "action d \<noteq> ''NEVER''" if "evaluate lib clk e st = (Inr d, st')" for d st'
    using that by (rule safe)
  show "\<exists>d st'. evaluate lib clk e st = (Inr d, st') \<and> action d \<noteq> ''NEVER''"
    if ok: "(\<exists>rr. rules_evaluate (rules st) e = Inr rr) \<and>
            reachable threshold timeout (circuit_breaker (scorer st))"
  proof (cases "evaluate lib clk e st")
    case (Pair r st')
    show ?thesis
    proof (cases r)
      case (Inl err)
      with Pair evaluate_raises [of lib clk e st err st'] ok
        reachable_can_attempt_returns [of threshold timeout "circuit_breaker (scorer st)"]
      show ?thesis by auto
    next
      case (Inr d)
      with Pair safe show ?thesis by auto
    qed
  qed
  show "decide clk e ''NEVER'' sc rsn rule ai fb st =
       (\<lparr>d_event_id = event_id e, d_user_id = user_id e, action = ''NOW'', score = 9 / 10,
         reason = safety_net_prefix @ rsn, rule_matched = rule, ai_used = ai,
         fallback_mode = fb, decided_at = now_iso clk, deferred_until = None\<rparr>,
        st\<lparr>audit_log := audit_log st @
          [\<lparr>d_event_id = event_id e, d_user_id = user_id e, action = ''NOW'', score = 9 / 10,
            reason = safety_net_prefix @ rsn, rule_matched = rule, ai_used = ai,
            fallback_mode = fb, decided_at = now_iso clk, deferred_until = None\<rparr>]\<rparr>)"
    using high by (rule decide_safety_net)
qed

lemma evaluate_expired:
  "is_expired lib (time_now clk) e \<Longrightarrow>
   evaluate lib clk e st =
     returns (decide clk e ''NEVER'' 0 ''Event expired before processing'' None False False st)"
  by (simp add: evaluate_def)

lemma evaluate_duplicate:
  "\<not> is_expired lib (time_now clk) e \<Longrightarrow> check lib (time_now clk) e (store st) = (Some r, s1) \<Longrightarrow>
   r \<noteq> [] \<Longrightarrow>
   evaluate lib clk e st =
     returns (decide clk e ''NEVER'' 0 r (Some ''dedup_check'') False False (st\<lparr>store := s1\<rparr>))"
  by (simp add: evaluate_def truthy_str_def or_empty_def)

lemma evaluate_rule_now:
  "\<not> is_expired lib (time_now clk) e \<Longrightarrow> check lib (time_now clk) e (store st) = (dr, s1) \<Longrightarrow>
   \<not> truthy_str dr \<Longrightarrow> rules_evaluate (rules st) e = Inr (Some (''NOW'', rr, rn)) \<Longrightarrow>
   evaluate lib clk e st =
     returns (decide clk e ''NOW'' 1 rr (Some rn) False False (st\<lparr>store := s1\<rparr>))"
  by (simp add: evaluate_def)

lemma evaluate_rule_never:
  "\<not> is_expired lib (time_now clk) e \<Longrightarrow> check lib (time_now clk) e (store st) = (dr, s1) \<Longrightarrow>
   \<not> truthy_str dr \<Longrightarrow> rules_evaluate (rules st) e = Inr (Some (''NEVER'', rr, rn)) \<Longrightarrow>
   evaluate lib clk e st =
     returns (decide clk e ''NEVER'' 0 rr (Some rn) False False (st\<lparr>store := s1\<rparr>))"
  by (simp add: evaluate_def)

lemma evaluate_passes_rules:
  "\<not> is_expired lib (time_now clk) e \<Longrightarrow> check lib (time_now clk) e (store st) = (dr, s1) \<Longrightarrow>
   \<not> truthy_str dr \<Longrightarrow> rules_evaluate (rules st) e = Inr rule_result \<Longrightarrow>
   soft_rule rule_result \<Longrightarrow>
   evaluate lib clk e st = evaluate_after_rules lib clk e rule_result (st\<lparr>store := s1\<rparr>)"
  by (auto simp add: evaluate_def soft_rule_def split: option.splits)

lemma after_rules_frequency_cap:
  "check_frequency (time_now clk) e (store st) = (Some fr, s1) \<Longrightarrow> fr \<noteq> [] \<Longrightarrow>
   check_daily_cap clk e s1 = (dr, s2) \<Longrightarrow> \<not> is_high_priority e \<Longrightarrow>
   evaluate_after_rules lib clk e rule_result st =
     (if event_type e = ''promotion'' \<or> event_type e = ''system_event''
      then returns (decide clk e ''NEVER'' (1 / 10) fr (Some ''frequency_cap'') False False
                      (st\<lparr>store := s2\<rparr>))
      else returns (decide clk e ''LATER'' (3 / 10) (fr @ '' '' @ em_dash @ '' batched to digest'')
                      (Some ''frequency_cap'') False False (st\<lparr>store := s2\<rparr>)))"
  by (simp add: evaluate_after_rules_def truthy_str_def or_empty_def)

lemma after_rules_daily_cap:
  "check_frequency (time_now clk) e (store st) = (fr, s1) \<Longrightarrow> \<not> truthy_str fr \<Longrightarrow>
   check_daily_cap clk e s1 = (Some dr, s2) \<Longrightarrow> dr \<noteq> [] \<Longrightarrow> \<not> is_high_priority e \<Longrightarrow>
   evaluate_after_rules lib clk e rule_result st =
     returns (decide clk e ''LATER'' (3 / 10) (dr @ '' '' @ em_dash @ '' batched to digest'')
                (Some ''daily_cap'') False False (st\<lparr>store := s2\<rparr>))"
  by (simp add: evaluate_after_rules_def truthy_str_def or_empty_def)

lemma after_rules_scored:
  "check_frequency (time_now clk) e (store st) = (fr, s1) \<Longrightarrow>
   check_daily_cap clk e s1 = (dr, s2) \<Longrightarrow>
   is_high_priority e \<or> (\<not> truthy_str fr \<and> \<not> truthy_str dr) \<Longrightarrow>
   ai_score lib (time_now clk) e (get_count (time_now clk) (freq_key e) s2) (quiet_hours e)
     (scorer st) = (Inr sr, scorer') \<Longrightarrow>
   evaluate_after_rules lib clk e rule_result st =
     returns (decide clk e
       (if merged_action e rule_result sr then ''LATER'' else sr_action sr)
       (sr_score sr)
       (if merged_action e rule_result sr
        then fst (snd (the rule_result)) @ '' (overrides AI NOW suggestion)''
        else sr_reason sr)
       (map_option (\<lambda>r. snd (snd r)) rule_result)
       (sr_ai_used sr) (sr_fallback_mode sr) (st\<lparr>store := s2, scorer := scorer'\<rparr>))"
  by (auto simp add: evaluate_after_rules_def merged_action_def split: option.splits)

lemma incr_fst:
  "fst (incr now key ttl s) = (case live_counter now key s of None \<Rightarrow> 1 | Some en \<Rightarrow> fst en + 1)"
  by (simp add: incr_def live_counter_def Let_def split: option.splits)

lemma get_count_live:
  "get_count now key s = (case live_counter now key s of None \<Rightarrow> 0 | Some en \<Rightarrow> fst en)"
  by (simp add: get_count_def live_counter_def split: option.splits)

lemma get_count_incr_same:
  "0 \<le> ttl \<Longrightarrow> get_count now key (snd (incr now key ttl s)) = fst (incr now key ttl s)"
  by (auto simp: incr_def get_count_def store_is_expired_def Let_def split: option.splits)

lemma incr_counters_other:
  "key' \<noteq> key \<Longrightarrow> counters_dict (snd (incr now key ttl s)) key' = counters_dict s key'"
  by (simp add: incr_def Let_def split: option.splits)

lemma live_counter_incr_other:
  "key' \<noteq> key \<Longrightarrow> live_counter now' key' (snd (incr now key ttl s)) = live_counter now' key' s"
  by (simp add: live_counter_def incr_counters_other)

lemma incr_store_dict: "store_dict (snd (incr now key ttl s)) = store_dict s"
  by (simp add: incr_def Let_def split: option.splits)

lemma check_live_counter: "live_counter now' key (snd (check lib now e s)) = live_counter now' key s"
  by (simp add: live_counter_def check_keeps_counters)

lemma CAPS_window: "snd (CAPS ty) = 3600"
  by (simp add: CAPS_def)

lemma check_frequency_eq:
  "check_frequency now e s =
     (let count = fst (incr now (freq_key e) 3600 s)
      in (if count > fst (CAPS (event_type e))
          then Some (frequency_reason count (fst (CAPS (event_type e))) (event_type e))
          else None,
          snd (incr now (freq_key e) 3600 s)))"
  by (simp add: check_frequency_def CAPS_window Let_def split: prod.splits)

lemma daily_key_not_freq_key:
  "''daily_cap:'' @ u @ '':'' @ ch @ '':'' @ d \<noteq> freq_key e"
  by (simp add: freq_key_def)

lemma check_daily_cap_snd:
  "snd (check_daily_cap clk e s) =
   snd (incr (time_now clk) (''daily_cap:'' @ user_id e @ '':'' @ channel e @ '':'' @ today_iso clk)
          86400 s)"
  by (simp add: check_daily_cap_def Let_def split: prod.splits)

lemma check_daily_cap_live_counter:
  "live_counter now' (freq_key e') (snd (check_daily_cap clk e s)) = live_counter now' (freq_key e') s"
  unfolding check_daily_cap_snd
  by (rule live_counter_incr_other) (simp add: freq_key_def)

lemma recent_count_after_checks:
  "get_count now (freq_key e) (snd (check_daily_cap clk e (snd (check_frequency now e s)))) =
   fst (incr now (freq_key e) 3600 s)"
  using get_count_incr_same [of 3600 now "freq_key e" s]
  by (simp add: get_count_live check_daily_cap_live_counter check_frequency_eq Let_def)

lemma quiet_promotion_decision: "fst (evaluate sample_lib (sample_clock 0) quiet_promotion engine_ai_off) =
     Inr \<lparr>d_event_id = ''e1'', d_user_id = ''u1'', action = ''NOW'', score = 9 / 10,
          reason = safety_net_prefix @ ''[FALLBACK] AI circuit breaker OPEN '' @ em_dash @
                   '' Score 0.25 '' @ em_dash @ '' low value, suppressed'',
          rule_matched = None, ai_used = False, fallback_mode = True,
          decided_at = ''2023-11-14T22:13:20'', deferred_until = None\<rparr>"
proof -
  let ?clk = "sample_clock 0"
  let ?e = quiet_promotion
  let ?st = engine_ai_off
  let ?s1 = "snd (check sample_lib (time_now ?clk) ?e (store ?st))"
  let ?st1 = "?st\<lparr>store := ?s1\<rparr>"
  let ?s2 = "snd (check_frequency (time_now ?clk) ?e (store ?st1))"
  let ?s3 = "snd (check_daily_cap ?clk ?e ?s2)"
  let ?sr = "fallback_score sample_lib (time_now ?clk) ?e 1 (PBool True) ''AI circuit breaker OPEN''"
  have high: "is_high_priority ?e"
    by (simp add: is_high_priority_def quiet_promotion_def sample_event_def)
  have fresh: "\<not> is_expired sample_lib (time_now ?clk) ?e"
    by (simp add: is_expired_def quiet_promotion_def sample_event_def)
  have dup: "check sample_lib (time_now ?clk) ?e (store ?st) = (None, ?s1)"
    by (simp add: text_defs sample_defs checker_defs store_defs Engine_init_def prod_eq_iff)
  have rules: "rules_evaluate (rules ?st) ?e = Inr None"
    by (simp add: rules_defs engine_ai_off_def Engine_init_def quiet_promotion_def sample_event_def)
  have cnt3: "get_count (time_now ?clk) (freq_key ?e) ?s3 = 1"
    by (simp add: recent_count_after_checks incr_fst check_keeps_counters live_counter_def
        engine_ai_off_def Engine_init_def InMemoryStore_init_def)
  have quiet: "quiet_hours ?e = PBool True"
    by (simp add: quiet_hours_def quiet_promotion_def sample_event_def)
  have scored: "\<exists>sc'. ai_score sample_lib (time_now ?clk) ?e 1 (PBool True) (scorer ?st1) = (Inr ?sr, sc')"
    by (simp add: ai_score_def can_attempt_def engine_ai_off_def Engine_init_def AIScorer_init_def
        CircuitBreaker_init_def)
  then obtain sc' where
    scored': "ai_score sample_lib (time_now ?clk) ?e 1 (PBool True) (scorer ?st1) = (Inr ?sr, sc')" ..
  have sr: "?sr = \<lparr>sr_score = 25 / 100, sr_action = ''NEVER'',
       sr_reason = ''[FALLBACK] AI circuit breaker OPEN '' @ em_dash @
                   '' Score 0.25 '' @ em_dash @ '' low value, suppressed'',
       sr_ai_used = False, sr_fallback_mode = True\<rparr>"
    by (simp add: scorer_defs sample_defs text_defs Let_def)
  have "evaluate sample_lib ?clk ?e ?st = evaluate_after_rules sample_lib ?clk ?e None ?st1"
    by (rule evaluate_passes_rules [OF fresh dup _ rules]) (simp_all add: truthy_str_def soft_rule_def)
  also have "\<dots> = returns (decide ?clk ?e (sr_action ?sr) (sr_score ?sr) (sr_reason ?sr) None
       (sr_ai_used ?sr) (sr_fallback_mode ?sr) (?st1\<lparr>store := ?s3, scorer := sc'\<rparr>))"
    using after_rules_scored [of ?clk ?e ?st1 "fst (check_frequency (time_now ?clk) ?e (store ?st1))" ?s2
        "fst (check_daily_cap ?clk ?e ?s2)" ?s3 sample_lib ?sr sc' None]
      high scored' cnt3 quiet
    by (simp add: merged_action_def)
  finally have ev: "evaluate sample_lib ?clk ?e ?st =
      returns (decide ?clk ?e (sr_action ?sr) (sr_score ?sr) (sr_reason ?sr) None
       (sr_ai_used ?sr) (sr_fallback_mode ?sr) (?st1\<lparr>store := ?s3, scorer := sc'\<rparr>))" .
  have "fst (evaluate sample_lib ?clk ?e ?st) =
      Inr (fst (decide ?clk ?e ''NEVER'' (25 / 100)
        (''[FALLBACK] AI circuit breaker OPEN '' @ em_dash @
                   '' Score 0.25 '' @ em_dash @ '' low value, suppressed'') None False True
        (?st1\<lparr>store := ?s3, scorer := sc'\<rparr>)))"
    unfolding ev sr by (simp add: returns_def)
  also have "\<dots> = Inr \<lparr>d_event_id = event_id ?e, d_user_id = user_id ?e, action = ''NOW'',
          score = 9 / 10,
          reason = safety_net_prefix @ ''[FALLBACK] AI circuit breaker OPEN '' @ em_dash @
                   '' Score 0.25 '' @ em_dash @ '' low value, suppressed'',
          rule_matched = None, ai_used = False, fallback_mode = True,
          decided_at = now_iso ?clk, deferred_until = None\<rparr>"
    unfolding decide_safety_net [OF high] by simp
  finally show ?thesis
    by (simp add: quiet_promotion_def sample_event_def sample_clock_def)
qed

theorem high_priority_never_suppressed_witness:
  "is_high_priority quiet_promotion \<and>
   (\<exists>rr. rules_evaluate (rules engine_ai_off) quiet_promotion = Inr rr) \<and>
   reachable 5 30 (circuit_breaker (scorer engine_ai_off)) \<and>
   (\<exists>d st'. evaluate sample_lib (sample_clock 0) quiet_promotion engine_ai_off = (Inr d, st') \<and>
      action d \<noteq> ''NEVER'') \<and>
   fst (evaluate sample_lib (sample_clock 0) quiet_promotion engine_ai_off) =
     Inr \<lparr>d_event_id = ''e1'', d_user_id = ''u1'', action = ''NOW'', score = 9 / 10,
          reason = safety_net_prefix @ ''[FALLBACK] AI circuit breaker OPEN '' @ em_dash @
                   '' Score 0.25 '' @ em_dash @ '' low value, suppressed'',
          rule_matched = None, ai_used = False, fallback_mode = True,
          decided_at = ''2023-11-14T22:13:20'', deferred_until = None\<rparr>"
proof -
  have high: "is_high_priority quiet_promotion"
    by (simp add: is_high_priority_def quiet_promotion_def sample_event_def)
  have rules: "\<exists>rr. rules_evaluate (rules engine_ai_off) quiet_promotion = Inr rr"
    by (simp add: rules_defs engine_ai_off_def Engine_init_def quiet_promotion_def sample_event_def)
  have "reachable 5 30 (CircuitBreaker_init 5 30)"
    by (rule reach_init)
  then have reach: "reachable 5 30 (circuit_breaker (scorer engine_ai_off))"
    by (simp add: engine_ai_off_def AIScorer_init_def)
  from high_priority_never_suppressed
    [of quiet_promotion sample_lib "sample_clock 0" engine_ai_off 5 30] high rules reach
  have "\<exists>d st'. evaluate sample_lib (sample_clock 0) quiet_promotion engine_ai_off = (Inr d, st') \<and>
      action d \<noteq> ''NEVER''"
    by blast
  with high rules reach quiet_promotion_decision show ?thesis
    by blast
qed

lemma expired_reminder_is_expired:
  "is_expired sample_lib (time_now (sample_clock 0)) (expired_reminder p)"
  by (simp add: is_expired_def expired_reminder_def sample_event_def sample_lib_def
      sample_fromisoformat_def replace_Z_def sample_clock_def)

text \<open>
  Claim C2, amended. For every event for which \<^verbatim>\<open>is_expired()\<close> is true and whose
  \<^verbatim>\<open>priority_hint\<close> is neither \<^verbatim>\<open>critical\<close> nor \<^verbatim>\<open>high\<close>, \<^verbatim>\<open>evaluate\<close> returns a
  Decision with action \<^verbatim>\<open>NEVER\<close>, score 0.0, reason \<^verbatim>\<open>Event expired before processing\<close>
  and no rule matched. For an expired event with \<^verbatim>\<open>priority_hint\<close> \<^verbatim>\<open>critical\<close> or
  \<^verbatim>\<open>high\<close> the safety net of \<^verbatim>\<open>_decide\<close> applies to the expiry decision as to every
  other: the Decision has action \<^verbatim>\<open>NOW\<close>, score 0.9 and the safety-net prefix before
  the expiry reason. In both cases the Decision is appended to the audit log and
  nothing else changes.
\<close>

theorem expired_event_decision:
  "is_expired lib (time_now clk) e \<longrightarrow>
     (\<not> is_high_priority e \<longrightarrow>
        evaluate lib clk e st =
          (Inr \<lparr>d_event_id = event_id e, d_user_id = user_id e, action = ''NEVER'', score = 0,
                reason = ''Event expired before processing'', rule_matched = None,
                ai_used = False, fallback_mode = False, decided_at = now_iso clk,
                deferred_until = None\<rparr>,
           st\<lparr>audit_log := audit_log st @
             [\<lparr>d_event_id = event_id e, d_user_id = user_id e, action = ''NEVER'', score = 0,
               reason = ''Event expired before processing'', rule_matched = None,
               ai_used = False, fallback_mode = False, decided_at = now_iso clk,
               deferred_until = None\<rparr>]\<rparr>)) \<and>
     (is_high_priority e \<longrightarrow>
        evaluate lib clk e st =
          (Inr \<lparr>d_event_id = event_id e, d_user_id = user_id e, action = ''NOW'', score = 9 / 10,
                reason = safety_net_prefix @ ''Event expired before processing'',
                rule_matched = None, ai_used = False, fallback_mode = False,
                decided_at = now_iso clk, deferred_until = None\<rparr>,
           st\<lparr>audit_log := audit_log st @
             [\<lparr>d_event_id = event_id e, d_user_id = user_id e, action = ''NOW'', score = 9 / 10,
               reason = safety_net_prefix @ ''Event expired before processing'',
               rule_matched = None, ai_used = False, fallback_mode = False,
               decided_at = now_iso clk, deferred_until = None\<rparr>]\<rparr>))"
  by (simp add: evaluate_expired returns_def decide_safety_net decide_plain)

text \<open>
  The claim as stated fails on an expired reminder with priority hint \<^verbatim>\<open>critical\<close>:
  the engine answers \<^verbatim>\<open>NOW\<close>.
\<close>

theorem expired_critical_counterexample:
  "is_expired sample_lib (time_now (sample_clock 0)) (expired_reminder ''critical'') \<and>
   fst (evaluate sample_lib (sample_clock 0) (expired_reminder ''critical'') Engine_init) =
     Inr \<lparr>d_event_id = ''e1'', d_user_id = ''u1'', action = ''NOW'', score = 9 / 10,
          reason = ''[SAFETY NET] High-priority event cannot be suppressed. Original: Event expired before processing'',
          rule_matched = None, ai_used = False, fallback_mode = False,
          decided_at = ''2023-11-14T22:13:20'', deferred_until = None\<rparr>"
proof -
  have high: "is_high_priority (expired_reminder ''critical'')"
    by (simp add: is_high_priority_def expired_reminder_def sample_event_def)
  have "fst (evaluate sample_lib (sample_clock 0) (expired_reminder ''critical'') Engine_init) =
     Inr (fst (decide (sample_clock 0) (expired_reminder ''critical'') ''NEVER'' 0
            ''Event expired before processing'' None False False Engine_init))"
    by (simp add: evaluate_expired [OF expired_reminder_is_expired] returns_def)
  also have "\<dots> = Inr \<lparr>d_event_id = ''e1'', d_user_id = ''u1'', action = ''NOW'', score = 9 / 10,
          reason = ''[SAFETY NET] High-priority event cannot be suppressed. Original: Event expired before processing'',
          rule_matched = None, ai_used = False, fallback_mode = False,
          decided_at = ''2023-11-14T22:13:20'', deferred_until = None\<rparr>"
    unfolding decide_safety_net [OF high]
    by (simp add: expired_reminder_def sample_event_def sample_clock_def safety_net_prefix_def)
  finally show ?thesis
    using expired_reminder_is_expired by blast
qed

theorem expired_event_decision_witness:
  "is_expired sample_lib (time_now (sample_clock 0)) (expired_reminder ''low'') \<and>
   \<not> is_high_priority (expired_reminder ''low'') \<and>
   fst (evaluate sample_lib (sample_clock 0) (expired_reminder ''low'') Engine_init) =
     Inr \<lparr>d_event_id = ''e1'', d_user_id = ''u1'', action = ''NEVER'', score = 0,
          reason = ''Event expired before processing'', rule_matched = None,
          ai_used = False, fallback_mode = False, decided_at = ''2023-11-14T22:13:20'',
          deferred_until = None\<rparr> \<and>
   is_expired sample_lib (time_now (sample_clock 0)) (expired_reminder ''high'') \<and>
   is_high_priority (expired_reminder ''high'') \<and>
   fst (evaluate sample_lib (sample_clock 0) (expired_reminder ''high'') Engine_init) =
     Inr \<lparr>d_event_id = ''e1'', d_user_id = ''u1'', action = ''NOW'', score = 9 / 10,
          reason = safety_net_prefix @ ''Event expired before processing'',
          rule_matched = None, ai_used = False, fallback_mode = False,
          decided_at = ''2023-11-14T22:13:20'', deferred_until = None\<rparr>"
proof -
  have low: "\<not> is_high_priority (expired_reminder ''low'')"
    by (simp add: is_high_priority_def expired_reminder_def sample_event_def)
  have high: "is_high_priority (expired_reminder ''high'')"
    by (simp add: is_high_priority_def expired_reminder_def sample_event_def)
  have fields: "event_id (expired_reminder p) = ''e1''" "user_id (expired_reminder p) = ''u1''"
    "now_iso (sample_clock 0) = ''2023-11-14T22:13:20''" for p
    by (simp_all add: expired_reminder_def sample_event_def sample_clock_def)
  from expired_event_decision [of sample_lib "sample_clock 0" "expired_reminder ''low''" Engine_init]
    expired_reminder_is_expired [of "''low''"] low
  have a: "fst (evaluate sample_lib (sample_clock 0) (expired_reminder ''low'') Engine_init) =
     Inr \<lparr>d_event_id = ''e1'', d_user_id = ''u1'', action = ''NEVER'', score = 0,
          reason = ''Event expired before processing'', rule_matched = None,
          ai_used = False, fallback_mode = False, decided_at = ''2023-11-14T22:13:20'',
          deferred_until = None\<rparr>"
    by (simp add: fields)
  from expired_event_decision [of sample_lib "sample_clock 0" "expired_reminder ''high''" Engine_init]
    expired_reminder_is_expired [of "''high''"] high
  have b: "fst (evaluate sample_lib (sample_clock 0) (expired_reminder ''high'') Engine_init) =
     Inr \<lparr>d_event_id = ''e1'', d_user_id = ''u1'', action = ''NOW'', score = 9 / 10,
          reason = safety_net_prefix @ ''Event expired before processing'',
          rule_matched = None, ai_used = False, fallback_mode = False,
          decided_at = ''2023-11-14T22:13:20'', deferred_until = None\<rparr>"
    by (simp add: fields)
  show ?thesis
    using a b low high expired_reminder_is_expired by blast
qed

subsection \<open>Exact duplicates\<close>

lemma check_frequency_store_dict: "store_dict (snd (check_frequency now e s)) = store_dict s"
  by (simp add: check_frequency_eq Let_def incr_store_dict)

lemma check_daily_cap_store_dict: "store_dict (snd (check_daily_cap clk e s)) = store_dict s"
  by (simp add: check_daily_cap_snd incr_store_dict)

lemma decide_store: "store (snd (decide clk e act sc rsn rule ai fb st)) = store st"
  by (simp add: decide_def Let_def split: prod.splits)

lemma after_rules_store_dict:
  "store_dict (store (snd (evaluate_after_rules lib clk e rr st))) = store_dict (store st)"
  by (simp add: evaluate_after_rules_def Let_def case_prod_beta returns_def decide_store
      check_frequency_store_dict check_daily_cap_store_dict split: sum.splits option.splits)

lemma evaluate_store_dict:
  "\<not> is_expired lib (time_now clk) e \<Longrightarrow>
   store_dict (store (snd (evaluate lib clk e st))) =
   store_dict (snd (check lib (time_now clk) e (store st)))"
  by (simp add: evaluate_def Let_def case_prod_beta returns_def decide_store
      after_rules_store_dict split: sum.splits option.splits)

lemma set_nx_fresh:
  "store_get now key s = None \<Longrightarrow>
   set_nx now key v ttl s = (True, s\<lparr>store_dict := (store_dict s)(key \<mapsto> (v, Some (now + of_int ttl)))\<rparr>)"
  by (auto simp: store_get_def set_nx_def split: option.splits if_splits)

lemma set_nx_live:
  "store_dict s key = Some (v', Some x) \<Longrightarrow> now \<le> x \<Longrightarrow> set_nx now key v ttl s = (False, s)"
  by (simp add: set_nx_def store_is_expired_def)

lemma set_nx_other:
  "key' \<noteq> key \<Longrightarrow> store_dict (snd (set_nx now key v ttl s)) key' = store_dict s key'"
  by (simp add: set_nx_def split: option.splits)

lemma dedup_layer2_keeps_dedup_key:
  "store_dict (snd (dedup_layer2 lib now e s)) (dedup_key e' k) = store_dict s (dedup_key e' k)"
  by (simp add: dedup_layer2_def Let_def case_prod_beta set_nx_other dedup_key_def)

lemma check_registers_key:
  assumes "dedupe_key e = Some k" and "k \<noteq> []"
    and "store_get now (dedup_key e k) s = None"
  shows "store_dict (snd (check lib now e s)) (dedup_key e k) =
           Some (event_id e, Some (now + 86400))"
  using assms
  by (simp add: check_def truthy_str_def or_empty_def Let_def set_nx_fresh EXACT_TTL_def
      dedup_layer2_keeps_dedup_key)

lemma check_exact_duplicate:
  assumes "dedupe_key e = Some k" and "k \<noteq> []"
    and "store_dict s (dedup_key e k) = Some (v, Some x)" and "now \<le> x"
  shows "check lib now e s = (Some (exact_duplicate_reason k), s)"
  using assms
  by (simp add: check_def truthy_str_def or_empty_def Let_def set_nx_live)

lemma second_call_exact_duplicate:
  assumes keys: "dedupe_key e1 = Some k" "dedupe_key e2 = Some k" "k \<noteq> []"
    and user: "user_id e1 = user_id e2"
    and fresh1: "\<not> is_expired lib (time_now clk1) e1"
    and fresh2: "\<not> is_expired lib (time_now clk2) e2"
    and within: "time_now clk2 \<le> time_now clk1 + 86400"
    and first: "store_get (time_now clk1) (dedup_key e1 k) (store st) = None"
  shows "evaluate lib clk2 e2 (snd (evaluate lib clk1 e1 st)) =
           returns (decide clk2 e2 ''NEVER'' 0 (exact_duplicate_reason k) (Some ''dedup_check'')
                      False False (snd (evaluate lib clk1 e1 st)))"
proof -
  let ?st1 = "snd (evaluate lib clk1 e1 st)"
  have same_key: "dedup_key e2 k = dedup_key e1 k"
    using user by (simp add: dedup_key_def)
  have "store_dict (store ?st1) (dedup_key e1 k) =
          Some (event_id e1, Some (time_now clk1 + 86400))"
    using evaluate_store_dict [OF fresh1, of st] check_registers_key [OF keys(1) keys(3) first]
    by simp
  then have entry: "store_dict (store ?st1) (dedup_key e2 k) =
          Some (event_id e1, Some (time_now clk1 + 86400))"
    by (simp add: same_key)
  have dup: "check lib (time_now clk2) e2 (store ?st1) = (Some (exact_duplicate_reason k), store ?st1)"
    by (rule check_exact_duplicate [OF keys(2) keys(3) entry within])
  have nonempty: "exact_duplicate_reason k \<noteq> []"
    by (simp add: exact_duplicate_reason_def)
  show ?thesis
    using evaluate_duplicate [OF fresh2 dup nonempty] by simp
qed

text \<open>
  Claim C3, amended. Take two events of the same user with the same non-empty
  \<^verbatim>\<open>dedupe_key\<close>, neither of them expired when it is evaluated, the second evaluated
  right after the first and no later than 24 hours after it, where the first call is
  the first sighting of the key (the store holds no live entry for it). Then for a
  second event whose \<^verbatim>\<open>priority_hint\<close> is neither \<^verbatim>\<open>critical\<close> nor \<^verbatim>\<open>high\<close> the second
  call returns a Decision with action \<^verbatim>\<open>NEVER\<close>, score 0, \<^verbatim>\<open>rule_matched\<close>
  \<^verbatim>\<open>dedup_check\<close> and the reason of the checker, which contains the key; for a second
  event with \<^verbatim>\<open>priority_hint\<close> \<^verbatim>\<open>critical\<close> or \<^verbatim>\<open>high\<close> the safety net turns that decision
  into \<^verbatim>\<open>NOW\<close> with score 0.9 and its prefix before the same reason.
\<close>

theorem exact_duplicate_decision:
  assumes "dedupe_key e1 = Some k" and "dedupe_key e2 = Some k" and "k \<noteq> []"
    and "user_id e1 = user_id e2"
    and "\<not> is_expired lib (time_now clk1) e1"
    and "\<not> is_expired lib (time_now clk2) e2"
    and "time_now clk2 \<le> time_now clk1 + 86400"
    and "store_get (time_now clk1) (dedup_key e1 k) (store st) = None"
  shows "(\<not> is_high_priority e2 \<longrightarrow>
            fst (evaluate lib clk2 e2 (snd (evaluate lib clk1 e1 st))) =
              Inr \<lparr>d_event_id = event_id e2, d_user_id = user_id e2, action = ''NEVER'',
                   score = 0, reason = exact_duplicate_reason k,
                   rule_matched = Some ''dedup_check'', ai_used = False, fallback_mode = False,
                   decided_at = now_iso clk2, deferred_until = None\<rparr>) \<and>
         (is_high_priority e2 \<longrightarrow>
            fst (evaluate lib clk2 e2 (snd (evaluate lib clk1 e1 st))) =
              Inr \<lparr>d_event_id = event_id e2, d_user_id = user_id e2, action = ''NOW'',
                   score = 9 / 10, reason = safety_net_prefix @ exact_duplicate_reason k,
                   rule_matched = Some ''dedup_check'', ai_used = False, fallback_mode = False,
                   decided_at = now_iso clk2, deferred_until = None\<rparr>) \<and>
         (\<exists>before after. exact_duplicate_reason k = before @ k @ after)"
proof -
  have "\<exists>before after. exact_duplicate_reason k = before @ k @ after"
    unfolding exact_duplicate_reason_def by (metis append.assoc)
  then show ?thesis
    using second_call_exact_duplicate [OF assms]
    by (simp add: returns_def decide_safety_net decide_plain)
qed

lemma keyed_message_facts:
  "dedupe_key (keyed_message p) = Some ''k1''"
  "user_id (keyed_message p) = ''u1''" "event_id (keyed_message p) = ''e1''"
  "\<not> is_expired sample_lib t (keyed_message p)"
  "store_get t (dedup_key (keyed_message p) ''k1'') (store Engine_init) = None"
  "time_now (sample_clock 60) \<le> time_now (sample_clock 0) + 86400"
  "now_iso (sample_clock 60) = ''2023-11-14T22:13:20''"
  by (simp_all add: keyed_message_def sample_event_def is_expired_def store_get_def
      Engine_init_def InMemoryStore_init_def sample_clock_def)

text \<open>
  The claim as stated fails for a priority hint \<^verbatim>\<open>high\<close>: the second of two calls with
  the key \<open>k1\<close>, a minute apart, returns \<^verbatim>\<open>NOW\<close>.
\<close>

theorem duplicate_high_priority_counterexample:
  "dedupe_key (keyed_message ''high'') = Some ''k1'' \<and>
   time_now (sample_clock 60) \<le> time_now (sample_clock 0) + 86400 \<and>
   fst (evaluate sample_lib (sample_clock 60) (keyed_message ''high'')
         (snd (evaluate sample_lib (sample_clock 0) (keyed_message ''high'') Engine_init))) =
     Inr \<lparr>d_event_id = ''e1'', d_user_id = ''u1'', action = ''NOW'', score = 9 / 10,
          reason = safety_net_prefix @ exact_duplicate_reason ''k1'',
          rule_matched = Some ''dedup_check'', ai_used = False, fallback_mode = False,
          decided_at = ''2023-11-14T22:13:20'', deferred_until = None\<rparr>"
proof -
  have high: "is_high_priority (keyed_message ''high'')"
    by (simp add: is_high_priority_def keyed_message_def sample_event_def)
  have "evaluate sample_lib (sample_clock 60) (keyed_message ''high'')
         (snd (evaluate sample_lib (sample_clock 0) (keyed_message ''high'') Engine_init)) =
        returns (decide (sample_clock 60) (keyed_message ''high'') ''NEVER'' 0
          (exact_duplicate_reason ''k1'') (Some ''dedup_check'') False False
          (snd (evaluate sample_lib (sample_clock 0) (keyed_message ''high'') Engine_init)))"
    by (rule second_call_exact_duplicate) (simp_all add: keyed_message_facts)
  then show ?thesis
    by (simp add: returns_def decide_safety_net [OF high] keyed_message_facts)
qed

theorem exact_duplicate_decision_witness:
  "dedupe_key (keyed_message ''medium'') = Some ''k1'' \<and>
   \<not> is_expired sample_lib (time_now (sample_clock 0)) (keyed_message ''medium'') \<and>
   \<not> is_expired sample_lib (time_now (sample_clock 60)) (keyed_message ''medium'') \<and>
   time_now (sample_clock 60) \<le> time_now (sample_clock 0) + 86400 \<and>
   store_get (time_now (sample_clock 0)) (dedup_key (keyed_message ''medium'') ''k1'')
     (store Engine_init) = None \<and>
   \<not> is_high_priority (keyed_message ''medium'') \<and>
   fst (evaluate sample_lib (sample_clock 60) (keyed_message ''medium'')
         (snd (evaluate sample_lib (sample_clock 0) (keyed_message ''medium'') Engine_init))) =
     Inr \<lparr>d_event_id = ''e1'', d_user_id = ''u1'', action = ''NEVER'', score = 0,
          reason = exact_duplicate_reason ''k1'',
          rule_matched = Some ''dedup_check'', ai_used = False, fallback_mode = False,
          decided_at = ''2023-11-14T22:13:20'', deferred_until = None\<rparr>"
proof -
  have low: "\<not> is_high_priority (keyed_message ''medium'')"
    by (simp add: is_high_priority_def keyed_message_def sample_event_def)
  have "fst (evaluate sample_lib (sample_clock 60) (keyed_message ''medium'')
         (snd (evaluate sample_lib (sample_clock 0) (keyed_message ''medium'') Engine_init))) =
     Inr \<lparr>d_event_id = ''e1'', d_user_id = ''u1'', action = ''NEVER'', score = 0,
          reason = exact_duplicate_reason ''k1'',
          rule_matched = Some ''dedup_check'', ai_used = False, fallback_mode = False,
          decided_at = ''2023-11-14T22:13:20'', deferred_until = None\<rparr>"
    using exact_duplicate_decision [of "keyed_message ''medium''" "''k1''" "keyed_message ''medium''"
        sample_lib "sample_clock 0" "sample_clock 60" Engine_init] low
    by (simp add: keyed_message_facts)
  then show ?thesis
    using low by (simp add: keyed_message_facts)
qed

end
